theory Spec2Isabelle
  imports Complex_Main
begin

section \<open>Pharmacy dispatch (devolution) QR scan: the route handler\<close>

text \<open>
  A shallow embedding of \<^verbatim>\<open>POST\<close> in
  \<^verbatim>\<open>src/app/api/qr-scan/pharmacy-dispatch-devolution/route.ts\<close>.
  The handler reads the session, parses the JSON body, looks up rows through the Prisma
  client, updates medication processes and creates scan records. The database is an
  explicit \<open>store\<close> value (one list of rows per table) that the handler takes and
  returns; every early \<^verbatim>\<open>return NextResponse.json(...)\<close> and every exception caught by the
  handler's \<^verbatim>\<open>catch\<close> is a branch that yields a \<open>response\<close>.
\<close>

subsection \<open>JSON values of the request body\<close>

datatype json =
    JUndefined
  | JNull
  | JBool bool
  | JNum real
  | JStr string
  | JArr "json list"
  | JObj "(string \<times> json) list"

text \<open>JavaScript's \<^verbatim>\<open>!x\<close>: the falsy values are undefined, null, false, 0 and the empty string.\<close>

fun falsy :: "json \<Rightarrow> bool" where
  "falsy JUndefined = True"
| "falsy JNull = True"
| "falsy (JBool b) = (\<not> b)"
| "falsy (JNum n) = (n = 0)"
| "falsy (JStr s) = (s = [])"
| "falsy (JArr xs) = False"
| "falsy (JObj kvs) = False"

text \<open>
  Reading a property while destructuring: an absent key is undefined, and of a repeated
  key \<^verbatim>\<open>JSON.parse\<close> keeps the last value. Values that are not objects have none of the
  four properties the handler asks for.
\<close>

fun property :: "json \<Rightarrow> string \<Rightarrow> json" where
  "property (JObj kvs) k = (case map_of (rev kvs) k of None \<Rightarrow> JUndefined | Some v \<Rightarrow> v)"
| "property v k = JUndefined"

text \<open>
  \<^verbatim>\<open>const { qrId, temperature, destinationLineId, transactionType } = await request.json()\<close>.
  Destructuring null throws a TypeError (\<open>None\<close>).
\<close>

fun destructure :: "json \<Rightarrow> (json \<times> json \<times> json \<times> json) option" where
  "destructure JNull = None"
| "destructure JUndefined = None"
| "destructure b =
     Some (property b ''qrId'', property b ''temperature'',
           property b ''destinationLineId'', property b ''transactionType'')"

text \<open>
  The Prisma client validates the arguments of a query before sending it: a \<^verbatim>\<open>where\<close>
  value for a String column that is not a string makes the call throw (\<open>None\<close>). All ids
  in \<^verbatim>\<open>prisma/schema.prisma\<close> are String columns.
\<close>

fun where_string :: "json \<Rightarrow> string option" where
  "where_string (JStr s) = Some s"
| "where_string v = None"

subsection \<open>Tables\<close>

text \<open>
  Modelled from the spec: the enum \<^verbatim>\<open>ProcessStatus\<close> is imported from
  \<^verbatim>\<open>@/types/patient\<close>, which is not among the sources; its members are the statuses the
  specification lists for a MedicationProcess.
\<close>

datatype ProcessStatus =
    PENDING
  | IN_PROGRESS
  | DISPATCHED_FROM_PHARMACY
  | DELIVERED
  | COMPLETED
  | ERROR

text \<open>
  The rows carry the columns the handler reads or writes. Timestamps are milliseconds
  since the epoch, as a JavaScript \<^verbatim>\<open>Date\<close> holds them. The models Line, QRCode,
  DailyProcess, Service, MedicationProcess and QRScanRecord are used by the handler but
  are not declared in \<^verbatim>\<open>prisma/schema.prisma\<close>; their columns are taken from the handler's
  queries. Field names are prefixed by the table, since the tables share column names.
\<close>

record profile =
  profile_id :: string
  profile_userId :: string

record line =
  line_id :: string
  line_displayName :: string

record qRCode =
  qr_id :: string
  qr_qrId :: string
  qr_type :: string
  qr_isActive :: bool

record dailyProcess =
  dp_id :: string
  dp_date :: int
  dp_createdAt :: int

record service =
  service_id :: string
  service_lineId :: string

record patient =
  patient_id :: string
  patient_serviceId :: string

record medicationProcess =
  mp_id :: string
  mp_patientId :: string
  mp_dailyProcessId :: string
  mp_step :: string
  mp_status :: ProcessStatus
  mp_updatedAt :: int

record qRScanRecord =
  sr_patientId :: string
  sr_qrCodeId :: string
  sr_scannedBy :: string
  sr_dailyProcessId :: string
  sr_temperature :: json
  sr_destinationLineId :: string
  sr_transactionType :: json
  sr_scannedAt :: int

record store =
  profiles :: "profile list"
  lines :: "line list"
  qRCodes :: "qRCode list"
  dailyProcesses :: "dailyProcess list"
  services :: "service list"
  patients :: "patient list"
  medicationProcesses :: "medicationProcess list"
  qRScanRecords :: "qRScanRecord list"

subsection \<open>Request, clock and response\<close>

text \<open>
  The request as the handler sees it: the outcome of \<^verbatim>\<open>supabase.auth.getSession()\<close>
  (whether \<^verbatim>\<open>error\<close> is set, and \<^verbatim>\<open>session?.user.id\<close> when there is a user) and the
  outcome of \<^verbatim>\<open>request.json()\<close> (\<open>None\<close> when the body is not JSON and the call throws).
\<close>

record request =
  sessionError :: bool
  sessionUser :: "string option"
  requestBody :: "json option"

text \<open>
  The clock: \<^verbatim>\<open>new Date()\<close> reads \<open>now\<close> (one reading for the whole request), and the
  server's local time is UTC plus \<open>tzOffset\<close> milliseconds, in a zone whose offset does
  not change during the day.
\<close>

record env =
  now :: int
  tzOffset :: int

text \<open>\<^verbatim>\<open>new Date(t).setHours(h, m, sec, ms)\<close>: the same local day at the given local time.\<close>

definition setHours :: "env \<Rightarrow> int \<Rightarrow> int \<Rightarrow> int \<Rightarrow> int \<Rightarrow> int" where
  "setHours e h m sec ms =
     now e - (now e + tzOffset e) mod 86400000 + (((h * 60 + m) * 60 + sec) * 1000 + ms)"

datatype body =
    ErrorBody string
  | ErrorMessageBody string string
  | SuccessBody string nat string string

datatype response = Response nat body

text \<open>The number of patients as \<^verbatim>\<open>${updatedProcesses.length}\<close> prints it.\<close>

function string_of_nat :: "nat \<Rightarrow> string" where
  "string_of_nat n =
     (if n < 10 then [char_of (48 + n)]
      else string_of_nat (n div 10) @ [char_of (48 + n mod 10)])"
  by pat_completeness auto
termination
  by (relation "measure (\<lambda>n. n)") auto

declare string_of_nat.simps [simp del]

text \<open>The texts of the responses; the accented letters are the Latin-1 characters.\<close>

definition noPatientsError :: "string \<Rightarrow> string" where
  "noPatientsError displayName =
     ''No hay pacientes con proceso de devoluci'' @ [CHR 0xF3] @ ''n activo en la l'' @
     [CHR 0xED] @ ''nea '' @ displayName"

definition noPatientsMessage :: string where
  "noPatientsMessage =
     ''Aseg'' @ [CHR 0xFA] @ ''rate de que los pacientes tengan el proceso de devoluci'' @
     [CHR 0xF3] @ ''n iniciado por enfermer'' @ [CHR 0xED] @ ''a''"

definition successMessage :: "nat \<Rightarrow> string \<Rightarrow> string" where
  "successMessage n displayName =
     ''Salida de farmacia (devoluci'' @ [CHR 0xF3] @ ''n) registrada para '' @
     string_of_nat n @ '' paciente'' @ (if n > 1 then ''s'' else '''') @ '' de la l'' @
     [CHR 0xED] @ ''nea '' @ displayName"

definition nextStep :: string where
  "nextStep =
     ''Escanear QR de Salida de Farmacia (Entregas) para completar el proceso de devoluci'' @
     [CHR 0xF3] @ ''n''"

definition unauthorized :: response where
  "unauthorized = Response 401 (ErrorBody ''Unauthorized'')"

definition profileNotFound :: response where
  "profileNotFound = Response 404 (ErrorBody ''Profile not found'')"

definition qrIdRequired :: response where
  "qrIdRequired = Response 400 (ErrorBody ''QR ID is required'')"

definition temperatureRequired :: response where
  "temperatureRequired = Response 400 (ErrorBody ''Temperature is required'')"

definition destinationLineRequired :: response where
  "destinationLineRequired = Response 400 (ErrorBody ''Destination line is required'')"

definition transactionTypeRequired :: response where
  "transactionTypeRequired = Response 400 (ErrorBody ''Transaction type is required'')"

definition invalidDestinationLine :: response where
  "invalidDestinationLine = Response 400 (ErrorBody ''Invalid destination line'')"

definition invalidQrCode :: response where
  "invalidQrCode =
     Response 400 (ErrorBody ''Invalid or inactive devolution pharmacy dispatch QR code'')"

definition noActiveDailyProcess :: response where
  "noActiveDailyProcess = Response 400 (ErrorBody ''No active daily process found'')"

definition noPatients :: "string \<Rightarrow> response" where
  "noPatients displayName =
     Response 400 (ErrorMessageBody (noPatientsError displayName) noPatientsMessage)"

definition internalServerError :: response where
  "internalServerError = Response 500 (ErrorBody ''Internal server error'')"

definition success :: "nat \<Rightarrow> string \<Rightarrow> response" where
  "success n displayName =
     Response 200 (SuccessBody (successMessage n displayName) n displayName nextStep)"

subsection \<open>The Prisma queries of the handler\<close>

text \<open>
  \<^verbatim>\<open>prisma.profile.findUnique({ where: { userId } })\<close>; the key is the user id of the
  session, which the auth provider issues, not a value of the request body.
\<close>

definition profile_findUnique :: "store \<Rightarrow> string \<Rightarrow> profile option" where
  "profile_findUnique s uid = find (\<lambda>p. profile_userId p = uid) (profiles s)"

text \<open>
  The outcome of a \<^verbatim>\<open>findUnique\<close> whose key comes from the request body: the call throws,
  or it returns null, or it returns the row. The datasource of \<^verbatim>\<open>prisma/schema.prisma\<close> is
  PostgreSQL, which refuses a text value that holds the character U+0000: for such a key
  the call throws and the handler's \<^verbatim>\<open>catch\<close> answers 500.
\<close>

datatype 'a lookup = Throws | NoRow | Row 'a

definition lookup_text :: "string \<Rightarrow> 'a option \<Rightarrow> 'a lookup" where
  "lookup_text key found =
     (if CHR 0x00 \<in> set key then Throws
      else case found of None \<Rightarrow> NoRow | Some row \<Rightarrow> Row row)"

text \<open>\<^verbatim>\<open>prisma.line.findUnique({ where: { id } })\<close>\<close>

definition line_findUnique :: "store \<Rightarrow> string \<Rightarrow> line lookup" where
  "line_findUnique s i = lookup_text i (find (\<lambda>l. line_id l = i) (lines s))"

text \<open>\<^verbatim>\<open>prisma.qRCode.findUnique({ where: { qrId } })\<close>\<close>

definition qRCode_findUnique :: "store \<Rightarrow> string \<Rightarrow> qRCode lookup" where
  "qRCode_findUnique s q = lookup_text q (find (\<lambda>c. qr_qrId c = q) (qRCodes s))"

text \<open>
  \<^verbatim>\<open>orderBy: { createdAt: 'desc' }\<close> and take the first row: a row whose \<^verbatim>\<open>createdAt\<close> no
  other row exceeds (of several such rows, the one the table lists first).
\<close>

fun first_createdAt_desc :: "dailyProcess list \<Rightarrow> dailyProcess option" where
  "first_createdAt_desc [] = None"
| "first_createdAt_desc (d # ds) =
     (case first_createdAt_desc ds of
        None \<Rightarrow> Some d
      | Some e \<Rightarrow> if dp_createdAt d < dp_createdAt e then Some e else Some d)"

text \<open>
  The \<^verbatim>\<open>where\<close> of the daily-process query:
  \<^verbatim>\<open>date: { gte: new Date(new Date().setHours(0, 0, 0, 0)),
          lt: new Date(new Date().setHours(23, 59, 59, 999)) }\<close>
\<close>

definition date_in_query :: "env \<Rightarrow> dailyProcess \<Rightarrow> bool" where
  "date_in_query e d \<longleftrightarrow>
     setHours e 0 0 0 0 \<le> dp_date d \<and> dp_date d < setHours e 23 59 59 999"

definition dailyProcess_findFirst :: "env \<Rightarrow> store \<Rightarrow> dailyProcess option" where
  "dailyProcess_findFirst e s =
     first_createdAt_desc (filter (date_in_query e) (dailyProcesses s))"

text \<open>
  The relation filter \<^verbatim>\<open>patient: { service: { lineId } }\<close>: the line of the service of
  the patient of a medication process, when these rows exist.
\<close>

definition patient_service_lineId :: "store \<Rightarrow> string \<Rightarrow> string option" where
  "patient_service_lineId s pid =
     (case find (\<lambda>p. patient_id p = pid) (patients s) of
        None \<Rightarrow> None
      | Some p \<Rightarrow>
          (case find (\<lambda>v. service_id v = patient_serviceId p) (services s) of
             None \<Rightarrow> None
           | Some v \<Rightarrow> Some (service_lineId v)))"

text \<open>The \<^verbatim>\<open>where\<close> of \<^verbatim>\<open>prisma.medicationProcess.findMany\<close>.\<close>

definition eligible :: "store \<Rightarrow> string \<Rightarrow> string \<Rightarrow> medicationProcess \<Rightarrow> bool" where
  "eligible s dailyProcessId lineId p \<longleftrightarrow>
     mp_dailyProcessId p = dailyProcessId \<and>
     mp_step p = ''DEVOLUCION'' \<and>
     mp_status p = IN_PROGRESS \<and>
     patient_service_lineId s (mp_patientId p) = Some lineId"

definition medicationProcess_findMany ::
  "store \<Rightarrow> string \<Rightarrow> string \<Rightarrow> medicationProcess list" where
  "medicationProcess_findMany s dailyProcessId lineId =
     filter (eligible s dailyProcessId lineId) (medicationProcesses s)"

text \<open>
  \<^verbatim>\<open>prisma.medicationProcess.update({ where: { id }, data })\<close>: the row with this id is
  rewritten and returned; when there is none the call throws (\<open>None\<close>) and the table
  stays as it is.
\<close>

fun medicationProcess_update ::
  "string \<Rightarrow> (medicationProcess \<Rightarrow> medicationProcess) \<Rightarrow> medicationProcess list \<Rightarrow>
   medicationProcess option \<times> medicationProcess list" where
  "medicationProcess_update i f [] = (None, [])"
| "medicationProcess_update i f (p # ps) =
     (if mp_id p = i then (Some (f p), f p # ps)
      else (case medicationProcess_update i f ps of (r, ps') \<Rightarrow> (r, p # ps')))"

text \<open>\<^verbatim>\<open>data: { status: ProcessStatus.DISPATCHED_FROM_PHARMACY, updatedAt: new Date() }\<close>\<close>

definition dispatched :: "env \<Rightarrow> medicationProcess \<Rightarrow> medicationProcess" where
  "dispatched e p = p\<lparr>mp_status := DISPATCHED_FROM_PHARMACY, mp_updatedAt := now e\<rparr>"

text \<open>
  \<^verbatim>\<open>Promise.all(devolutionProcesses.map(async (process) => prisma.medicationProcess.update(...)))\<close>:
  every update is started, so every one of them runs even when another one throws.
  The result lists, per process, the updated row or \<open>None\<close> for a call that threw.
\<close>

fun update_all ::
  "env \<Rightarrow> medicationProcess list \<Rightarrow> medicationProcess list \<Rightarrow>
   medicationProcess option list \<times> medicationProcess list" where
  "update_all e [] tbl = ([], tbl)"
| "update_all e (p # ps) tbl =
     (case medicationProcess_update (mp_id p) (dispatched e) tbl of
        (r, tbl1) \<Rightarrow> (case update_all e ps tbl1 of (rs, tbl2) \<Rightarrow> (r # rs, tbl2)))"

subsection \<open>The handler\<close>

text \<open>What the handler has resolved when it reaches the query for the medication processes.\<close>

record resolved =
  user_id :: string
  temperature :: json
  destinationLineId :: string
  transactionType :: json
  selectedLine :: line
  qrCode :: qRCode
  currentDailyProcess :: dailyProcess

text \<open>
  Lines 9 to 78 of the handler: session, profile, body, the four required fields, the
  destination line, the QR code and the current daily process, in this order. \<open>Inl\<close> is
  the response of an early return (or of the \<^verbatim>\<open>catch\<close>, when a call throws).
\<close>

definition POST_resolve :: "env \<Rightarrow> request \<Rightarrow> store \<Rightarrow> response + resolved" where
  "POST_resolve e req s =
     (case (if sessionError req then None else sessionUser req) of
        None \<Rightarrow> Inl unauthorized
      | Some uid \<Rightarrow>
     (case profile_findUnique s uid of
        None \<Rightarrow> Inl profileNotFound
      | Some prof \<Rightarrow>
     (case requestBody req of
        None \<Rightarrow> Inl internalServerError
      | Some b \<Rightarrow>
     (case destructure b of
        None \<Rightarrow> Inl internalServerError
      | Some (qrId, temp, lineId, ttype) \<Rightarrow>
     if falsy qrId then Inl qrIdRequired
     else if temp = JUndefined \<or> temp = JNull then Inl temperatureRequired
     else if falsy lineId then Inl destinationLineRequired
     else if falsy ttype then Inl transactionTypeRequired
     else
     (case where_string lineId of
        None \<Rightarrow> Inl internalServerError
      | Some lid \<Rightarrow>
     (case line_findUnique s lid of
        Throws \<Rightarrow> Inl internalServerError
      | NoRow \<Rightarrow> Inl invalidDestinationLine
      | Row sel \<Rightarrow>
     (case where_string qrId of
        None \<Rightarrow> Inl internalServerError
      | Some q \<Rightarrow>
     (case qRCode_findUnique s q of
        Throws \<Rightarrow> Inl internalServerError
      | NoRow \<Rightarrow> Inl invalidQrCode
      | Row c \<Rightarrow>
     if \<not> qr_isActive c \<or> qr_type c \<noteq> ''PHARMACY_DISPATCH_DEVOLUTION'' then Inl invalidQrCode
     else
     (case dailyProcess_findFirst e s of
        None \<Rightarrow> Inl noActiveDailyProcess
      | Some d \<Rightarrow>
          Inr \<lparr>user_id = uid, temperature = temp, destinationLineId = lid,
               transactionType = ttype, selectedLine = sel, qrCode = c,
               currentDailyProcess = d\<rparr>)))))))))"

text \<open>The \<^verbatim>\<open>data\<close> of \<^verbatim>\<open>prisma.qRScanRecord.create\<close> for one updated process.\<close>

definition scanData :: "env \<Rightarrow> resolved \<Rightarrow> medicationProcess \<Rightarrow> qRScanRecord" where
  "scanData e r p =
     \<lparr>sr_patientId = mp_patientId p, sr_qrCodeId = qr_id (qrCode r),
      sr_scannedBy = user_id r, sr_dailyProcessId = dp_id (currentDailyProcess r),
      sr_temperature = temperature r, sr_destinationLineId = destinationLineId r,
      sr_transactionType = transactionType r, sr_scannedAt = now e\<rparr>"

text \<open>
  Lines 114 to 164: the updates, then the scan records, then the success response.
  The QRScanRecord model is not among the sources, so which \<^verbatim>\<open>data\<close> the store accepts
  (the types and constraints of its columns) is the parameter \<open>accepts\<close>; a \<^verbatim>\<open>create\<close> the
  store rejects throws. Nothing undoes the writes made before a call throws: the
  handler's \<^verbatim>\<open>catch\<close> only answers 500.
\<close>

definition POST_commit ::
  "(qRScanRecord \<Rightarrow> bool) \<Rightarrow> env \<Rightarrow> resolved \<Rightarrow> medicationProcess list \<Rightarrow> store \<Rightarrow>
   response \<times> store" where
  "POST_commit accepts e r devolutionProcesses s =
     (case update_all e devolutionProcesses (medicationProcesses s) of
        (results, tbl) \<Rightarrow>
     (case those results of
        None \<Rightarrow> (internalServerError, s\<lparr>medicationProcesses := tbl\<rparr>)
      | Some updatedProcesses \<Rightarrow>
          (let records = map (scanData e r) updatedProcesses;
               s' = s\<lparr>medicationProcesses := tbl,
                      qRScanRecords := qRScanRecords s @ filter accepts records\<rparr>
           in if list_all accepts records
              then (success (length updatedProcesses) (line_displayName (selectedLine r)), s')
              else (internalServerError, s'))))"

text \<open>
  Lines 80 to 105: the \<^verbatim>\<open>findMany\<close> for the resolved batch and line.
\<close>

definition POST_query :: "resolved \<Rightarrow> store \<Rightarrow> medicationProcess list" where
  "POST_query r s =
     medicationProcess_findMany s (dp_id (currentDailyProcess r)) (destinationLineId r)"

text \<open>
  Lines 9 to 112, everything the handler does before its first write: \<open>Inl\<close> is an early
  response, \<open>Inr\<close> what was resolved together with \<^verbatim>\<open>devolutionProcesses\<close>.
\<close>

definition POST_read ::
  "env \<Rightarrow> request \<Rightarrow> store \<Rightarrow> response + resolved \<times> medicationProcess list" where
  "POST_read e req s =
     (case POST_resolve e req s of
        Inl resp \<Rightarrow> Inl resp
      | Inr r \<Rightarrow>
          (let devolutionProcesses = POST_query r s
           in if length devolutionProcesses = 0
              then Inl (noPatients (line_displayName (selectedLine r)))
              else Inr (r, devolutionProcesses)))"

text \<open>The rest of the handler, run on the store as it is when the writes start.\<close>

definition POST_write ::
  "(qRScanRecord \<Rightarrow> bool) \<Rightarrow> env \<Rightarrow> response + resolved \<times> medicationProcess list \<Rightarrow>
   store \<Rightarrow> response \<times> store" where
  "POST_write accepts e rd s =
     (case rd of
        Inl resp \<Rightarrow> (resp, s)
      | Inr (r, devolutionProcesses) \<Rightarrow> POST_commit accepts e r devolutionProcesses s)"

text \<open>The whole handler, run alone on the store.\<close>

definition POST ::
  "(qRScanRecord \<Rightarrow> bool) \<Rightarrow> env \<Rightarrow> request \<Rightarrow> store \<Rightarrow> response \<times> store" where
  "POST accepts e req s = POST_write accepts e (POST_read e req s) s"

text \<open>
  Two requests whose handlers overlap: every \<^verbatim>\<open>await\<close> of the handler yields, so both
  handlers can finish their reads (lines 9 to 112) on the same store before either
  starts to write. The result holds both responses and the final store.
\<close>

definition POST_overlapped ::
  "(qRScanRecord \<Rightarrow> bool) \<Rightarrow> env \<Rightarrow> request \<Rightarrow> env \<Rightarrow> request \<Rightarrow> store \<Rightarrow>
   response \<times> response \<times> store" where
  "POST_overlapped accepts e1 req1 e2 req2 s =
     (let rd1 = POST_read e1 req1 s;
          rd2 = POST_read e2 req2 s
      in case POST_write accepts e1 rd1 s of
           (resp1, s1) \<Rightarrow>
             (case POST_write accepts e2 rd2 s1 of
                (resp2, s2) \<Rightarrow> (resp1, resp2, s2)))"

subsection \<open>A ward to run the handler on\<close>

text \<open>
  One user with a profile, three lines, one active QR code of the checkpoint and one
  daily process dated today. Three patients of line 2 have a DEVOLUCION process in
  progress; a patient of line 1 has one too; one patient of line 2 also has a
  DISPENSACION process in progress. Line 3 has no patients.
\<close>

definition process ::
  "string \<Rightarrow> string \<Rightarrow> string \<Rightarrow> ProcessStatus \<Rightarrow> medicationProcess" where
  "process i pid stp st =
     \<lparr>mp_id = i, mp_patientId = pid, mp_dailyProcessId = ''d1'', mp_step = stp,
      mp_status = st, mp_updatedAt = 500\<rparr>"

definition ward :: store where
  "ward =
     \<lparr>profiles = [\<lparr>profile_id = ''pr1'', profile_userId = ''u1''\<rparr>],
      lines = [\<lparr>line_id = ''L1'', line_displayName = ''Linea 1''\<rparr>,
               \<lparr>line_id = ''L2'', line_displayName = ''Linea 2''\<rparr>,
               \<lparr>line_id = ''L3'', line_displayName = ''Linea 3''\<rparr>],
      qRCodes = [\<lparr>qr_id = ''q1'', qr_qrId = ''QR-DEV'',
                  qr_type = ''PHARMACY_DISPATCH_DEVOLUTION'', qr_isActive = True\<rparr>],
      dailyProcesses = [\<lparr>dp_id = ''d1'', dp_date = 0, dp_createdAt = 100\<rparr>],
      services = [\<lparr>service_id = ''sv1'', service_lineId = ''L1''\<rparr>,
                  \<lparr>service_id = ''sv2'', service_lineId = ''L2''\<rparr>],
      patients = [\<lparr>patient_id = ''pa'', patient_serviceId = ''sv2''\<rparr>,
                  \<lparr>patient_id = ''pb'', patient_serviceId = ''sv2''\<rparr>,
                  \<lparr>patient_id = ''pc'', patient_serviceId = ''sv2''\<rparr>,
                  \<lparr>patient_id = ''pd'', patient_serviceId = ''sv1''\<rparr>],
      medicationProcesses =
        [process ''m1'' ''pa'' ''DEVOLUCION'' IN_PROGRESS,
         process ''m2'' ''pb'' ''DEVOLUCION'' IN_PROGRESS,
         process ''m3'' ''pc'' ''DEVOLUCION'' IN_PROGRESS,
         process ''m4'' ''pd'' ''DEVOLUCION'' IN_PROGRESS,
         process ''m5'' ''pa'' ''DISPENSACION'' IN_PROGRESS],
      qRScanRecords = []\<rparr>"

text \<open>Noon of the day that starts at time 0, on a server whose local time is UTC.\<close>

definition noon :: env where
  "noon = \<lparr>now = 43200000, tzOffset = 0\<rparr>"

text \<open>One minute later.\<close>

definition later :: env where
  "later = \<lparr>now = 43260000, tzOffset = 0\<rparr>"

text \<open>A scan by a signed-in user: temperature, destination line and scanned QR id.\<close>

definition scanRequest :: "string \<Rightarrow> json \<Rightarrow> string \<Rightarrow> string \<Rightarrow> request" where
  "scanRequest uid temp lid q =
     \<lparr>sessionError = False, sessionUser = Some uid,
      requestBody = Some (JObj [(''qrId'', JStr q), (''temperature'', temp),
        (''destinationLineId'', JStr lid), (''transactionType'', JStr ''DEVOLUCION'')])\<rparr>"

text \<open>What the handler resolves for a scan of the ward's QR code for line \<open>lid\<close>.\<close>

definition ward_resolved :: "json \<Rightarrow> string \<Rightarrow> string \<Rightarrow> resolved" where
  "ward_resolved temp lid name =
     \<lparr>user_id = ''u1'', temperature = temp, destinationLineId = lid,
      transactionType = JStr ''DEVOLUCION'',
      selectedLine = \<lparr>line_id = lid, line_displayName = name\<rparr>,
      qrCode = \<lparr>qr_id = ''q1'', qr_qrId = ''QR-DEV'',
                 qr_type = ''PHARMACY_DISPATCH_DEVOLUTION'', qr_isActive = True\<rparr>,
      currentDailyProcess = \<lparr>dp_id = ''d1'', dp_date = 0, dp_createdAt = 100\<rparr>\<rparr>"

text \<open>The scan record of the ward's scan for a patient of line 2.\<close>

definition ward_record :: "json \<Rightarrow> string \<Rightarrow> qRScanRecord" where
  "ward_record temp pid =
     \<lparr>sr_patientId = pid, sr_qrCodeId = ''q1'', sr_scannedBy = ''u1'',
      sr_dailyProcessId = ''d1'', sr_temperature = temp, sr_destinationLineId = ''L2'',
      sr_transactionType = JStr ''DEVOLUCION'', sr_scannedAt = 43200000\<rparr>"

text \<open>The ward's medication processes after a dispatch to line 2 at noon.\<close>

definition ward_dispatched :: "medicationProcess list" where
  "ward_dispatched =
     [(process ''m1'' ''pa'' ''DEVOLUCION'' DISPATCHED_FROM_PHARMACY)\<lparr>mp_updatedAt := 43200000\<rparr>,
      (process ''m2'' ''pb'' ''DEVOLUCION'' DISPATCHED_FROM_PHARMACY)\<lparr>mp_updatedAt := 43200000\<rparr>,
      (process ''m3'' ''pc'' ''DEVOLUCION'' DISPATCHED_FROM_PHARMACY)\<lparr>mp_updatedAt := 43200000\<rparr>,
      process ''m4'' ''pd'' ''DEVOLUCION'' IN_PROGRESS,
      process ''m5'' ''pa'' ''DISPENSACION'' IN_PROGRESS]"

text \<open>A store that accepts every scan record.\<close>

definition accepts_all :: "qRScanRecord \<Rightarrow> bool" where
  "accepts_all rec = True"

text \<open>
  Modelled from the spec: a QRScanRecord whose \<^verbatim>\<open>temperature\<close> column is numeric, as the
  specification describes the field; the store then rejects any other value.
\<close>

definition numeric_temperature :: "qRScanRecord \<Rightarrow> bool" where
  "numeric_temperature rec = (case sr_temperature rec of JNum x \<Rightarrow> True | _ \<Rightarrow> False)"

text \<open>The ward before any daily process has been created.\<close>

definition ward_no_batch :: store where
  "ward_no_batch = ward\<lparr>dailyProcesses := []\<rparr>"

text \<open>
  The ward with a second daily process, created later and dated at the last millisecond
  (23:59:59.999) of the same day.
\<close>

definition ward_two_batches :: store where
  "ward_two_batches =
     ward\<lparr>dailyProcesses := [\<lparr>dp_id = ''d1'', dp_date = 0, dp_createdAt = 100\<rparr>,
                              \<lparr>dp_id = ''d2'', dp_date = 86399999, dp_createdAt = 200\<rparr>]\<rparr>"


section \<open>Properties of the queries and of the writes\<close>

subsection \<open>Updating by id\<close>

lemma dispatched_id [simp]: "mp_id (dispatched e p) = mp_id p"
  by (simp add: dispatched_def)

lemma dispatched_idem [simp]: "dispatched e (dispatched e p) = dispatched e p"
  by (simp add: dispatched_def)

lemma update_snd:
  "distinct (map mp_id tbl) \<Longrightarrow>
   snd (medicationProcess_update i f tbl) = map (\<lambda>q. if mp_id q = i then f q else q) tbl"
proof (induction tbl)
  case Nil
  show ?case by simp
next
  case (Cons p ps)
  show ?case
  proof (cases "mp_id p = i")
    case True
    with Cons.prems have "\<forall>q \<in> set ps. mp_id q \<noteq> i" by (auto simp: image_iff)
    then have "map (\<lambda>q. if mp_id q = i then f q else q) ps = ps"
      by (simp add: map_idI)
    with True show ?thesis by simp
  next
    case False
    with Cons show ?thesis by (auto split: prod.splits)
  qed
qed

lemma update_fst:
  "fst (medicationProcess_update i f tbl) = map_option f (find (\<lambda>q. mp_id q = i) tbl)"
  by (induction tbl) (auto split: prod.splits)

lemma find_map_id:
  "(\<And>q. mp_id (g q) = mp_id q) \<Longrightarrow>
   find (\<lambda>q. mp_id q = i) (map g tbl) = map_option g (find (\<lambda>q. mp_id q = i) tbl)"
  by (induction tbl) auto

lemma update_all_snd:
  "distinct (map mp_id tbl) \<Longrightarrow>
   snd (update_all e ps tbl) =
     map (\<lambda>q. if mp_id q \<in> mp_id ` set ps then dispatched e q else q) tbl"
proof (induction ps arbitrary: tbl)
  case Nil
  show ?case by simp
next
  case (Cons p ps)
  let ?g = "\<lambda>q. if mp_id q = mp_id p then dispatched e q else q"
  have ids: "map mp_id (map ?g tbl) = map mp_id tbl" by (induction tbl) auto
  have d: "distinct (map mp_id (map ?g tbl))" using Cons.prems by (simp only: ids)
  have s1: "snd (medicationProcess_update (mp_id p) (dispatched e) tbl) = map ?g tbl"
    using Cons.prems by (rule update_snd)
  have "snd (update_all e (p # ps) tbl) = snd (update_all e ps (map ?g tbl))"
    using s1 by (cases "medicationProcess_update (mp_id p) (dispatched e) tbl")
      (auto split: prod.splits)
  also have "\<dots> = map (\<lambda>q. if mp_id q \<in> mp_id ` set ps then dispatched e q else q) (map ?g tbl)"
    using d by (rule Cons.IH)
  also have "\<dots> = map (\<lambda>q. if mp_id q \<in> mp_id ` set (p # ps) then dispatched e q else q) tbl"
    by auto
  finally show ?case .
qed

lemma update_all_fst:
  "distinct (map mp_id tbl) \<Longrightarrow>
   fst (update_all e ps tbl) =
     map (\<lambda>p. map_option (dispatched e) (find (\<lambda>q. mp_id q = mp_id p) tbl)) ps"
proof (induction ps arbitrary: tbl)
  case Nil
  show ?case by simp
next
  case (Cons p ps)
  let ?g = "\<lambda>q. if mp_id q = mp_id p then dispatched e q else q"
  have ids: "map mp_id (map ?g tbl) = map mp_id tbl" by (induction tbl) auto
  have d: "distinct (map mp_id (map ?g tbl))" using Cons.prems by (simp only: ids)
  have s1: "snd (medicationProcess_update (mp_id p) (dispatched e) tbl) = map ?g tbl"
    using Cons.prems by (rule update_snd)
  have f1: "fst (medicationProcess_update (mp_id p) (dispatched e) tbl) =
      map_option (dispatched e) (find (\<lambda>q. mp_id q = mp_id p) tbl)"
    by (rule update_fst)
  have fm: "find (\<lambda>q. mp_id q = i) (map ?g tbl) = map_option ?g (find (\<lambda>q. mp_id q = i) tbl)" for i
    by (rule find_map_id) simp
  have "fst (update_all e (p # ps) tbl) =
      map_option (dispatched e) (find (\<lambda>q. mp_id q = mp_id p) tbl) # fst (update_all e ps (map ?g tbl))"
    using s1 f1 by (cases "medicationProcess_update (mp_id p) (dispatched e) tbl")
      (auto split: prod.splits)
  also have "fst (update_all e ps (map ?g tbl)) =
      map (\<lambda>p. map_option (dispatched e) (find (\<lambda>q. mp_id q = mp_id p) (map ?g tbl))) ps"
    using d by (rule Cons.IH)
  also have "\<dots> = map (\<lambda>p. map_option (dispatched e) (find (\<lambda>q. mp_id q = mp_id p) tbl)) ps"
    by (simp add: fm option.map_comp comp_def if_distrib[of "dispatched e"] cong: if_cong)
  finally show ?case by simp
qed

lemma dispatched_patientId [simp]: "mp_patientId (dispatched e p) = mp_patientId p"
  by (simp add: dispatched_def)

lemma find_by_id:
  "distinct (map mp_id tbl) \<Longrightarrow> q \<in> set tbl \<Longrightarrow> find (\<lambda>x. mp_id x = mp_id q) tbl = Some q"
  by (induction tbl) (auto simp: image_iff)

lemma those_updates:
  assumes "\<forall>p \<in> set ps. \<exists>q. find (\<lambda>x. mp_id x = mp_id p) tbl = Some q \<and> mp_patientId q = mp_patientId p"
  shows "\<exists>us. those (map (\<lambda>p. map_option (dispatched e) (find (\<lambda>q. mp_id q = mp_id p) tbl)) ps) = Some us
            \<and> map mp_patientId us = map mp_patientId ps"
  using assms
proof (induction ps)
  case Nil
  show ?case by simp
next
  case (Cons p ps)
  then obtain us where us: "those (map (\<lambda>p. map_option (dispatched e) (find (\<lambda>q. mp_id q = mp_id p) tbl)) ps) = Some us"
    "map mp_patientId us = map mp_patientId ps" by auto
  from Cons.prems obtain q where q: "find (\<lambda>x. mp_id x = mp_id p) tbl = Some q" "mp_patientId q = mp_patientId p"
    by auto
  show ?case using us q by simp
qed

lemma scanData_cong:
  "map mp_patientId us = map mp_patientId ps \<Longrightarrow> map (scanData e r) us = map (scanData e r) ps"
proof -
  assume a: "map mp_patientId us = map mp_patientId ps"
  have "map (scanData e r) xs =
        map (\<lambda>pid. \<lparr>sr_patientId = pid, sr_qrCodeId = qr_id (qrCode r),
      sr_scannedBy = user_id r, sr_dailyProcessId = dp_id (currentDailyProcess r),
      sr_temperature = temperature r, sr_destinationLineId = destinationLineId r,
      sr_transactionType = transactionType r, sr_scannedAt = now e\<rparr>) (map mp_patientId xs)" for xs
    by (simp add: scanData_def comp_def)
  with a show ?thesis by metis
qed

lemma POST_commit_eq:
  assumes pk: "distinct (map mp_id (medicationProcesses s))"
    and rows: "\<forall>p \<in> set ps. \<exists>q \<in> set (medicationProcesses s). mp_id q = mp_id p \<and> mp_patientId q = mp_patientId p"
  shows "POST_commit accepts e r ps s =
     (if list_all accepts (map (scanData e r) ps)
      then success (length ps) (line_displayName (selectedLine r))
      else internalServerError,
      s\<lparr>medicationProcesses :=
           map (\<lambda>q. if mp_id q \<in> mp_id ` set ps then dispatched e q else q) (medicationProcesses s),
        qRScanRecords := qRScanRecords s @ filter accepts (map (scanData e r) ps)\<rparr>)"
proof -
  let ?tbl = "medicationProcesses s"
  have "\<forall>p \<in> set ps. \<exists>q. find (\<lambda>x. mp_id x = mp_id p) ?tbl = Some q \<and> mp_patientId q = mp_patientId p"
  proof
    fix p assume "p \<in> set ps"
    with rows obtain q where q: "q \<in> set ?tbl" "mp_id q = mp_id p" "mp_patientId q = mp_patientId p"
      by blast
    from find_by_id[OF pk q(1)] q show "\<exists>q. find (\<lambda>x. mp_id x = mp_id p) ?tbl = Some q \<and> mp_patientId q = mp_patientId p"
      by auto
  qed
  from those_updates[OF this, of e] obtain us where
    us: "those (map (\<lambda>p. map_option (dispatched e) (find (\<lambda>q. mp_id q = mp_id p) ?tbl)) ps) = Some us"
      "map mp_patientId us = map mp_patientId ps" by blast
  have recs: "map (scanData e r) us = map (scanData e r) ps"
    using us(2) by (rule scanData_cong)
  have len: "length us = length ps"
    using us(2) by (metis length_map)
  obtain rs tbl' where u: "update_all e ps ?tbl = (rs, tbl')" by (cases "update_all e ps ?tbl")
  have rs: "rs = map (\<lambda>p. map_option (dispatched e) (find (\<lambda>q. mp_id q = mp_id p) ?tbl)) ps"
    using update_all_fst[OF pk, of e ps] u by simp
  have tbl': "tbl' = map (\<lambda>q. if mp_id q \<in> mp_id ` set ps then dispatched e q else q) ?tbl"
    using update_all_snd[OF pk, of e ps] u by simp
  show ?thesis
    unfolding POST_commit_def u
    using us(1) recs len by (simp add: rs[symmetric] tbl'[symmetric] Let_def)
qed

subsection \<open>The handler run alone\<close>

lemma POST_resolve_frame:
  "POST_resolve e req (s\<lparr>medicationProcesses := a, qRScanRecords := b\<rparr>) = POST_resolve e req s"
  by (simp add: POST_resolve_def profile_findUnique_def line_findUnique_def
      qRCode_findUnique_def dailyProcess_findFirst_def
      cong: option.case_cong prod.case_cong lookup.case_cong if_cong)

lemma eligible_frame:
  "eligible (s\<lparr>medicationProcesses := a, qRScanRecords := b\<rparr>) = eligible s"
  by (simp add: eligible_def patient_service_lineId_def fun_eq_iff cong: option.case_cong)

lemma id_in_filter:
  assumes "distinct (map mp_id tbl)" and "q \<in> set tbl"
  shows "mp_id q \<in> mp_id ` set (filter P tbl) \<longleftrightarrow> P q"
proof
  assume "mp_id q \<in> mp_id ` set (filter P tbl)"
  then obtain p where p: "p \<in> set tbl" "P p" "mp_id p = mp_id q" by auto
  from assms(1) p(1) assms(2) p(3) have "p = q"
    by (meson distinct_map inj_onD)
  with p show "P q" by simp
next
  assume "P q"
  with assms(2) show "mp_id q \<in> mp_id ` set (filter P tbl)" by auto
qed

lemma not_eligible_dispatched:
  "\<not> eligible s d l (dispatched e q)"
  by (simp add: eligible_def dispatched_def)

lemma POST_Inl:
  "POST_resolve e req s = Inl resp \<Longrightarrow> POST accepts e req s = (resp, s)"
  by (simp add: POST_def POST_read_def POST_write_def)

lemma POST_Inr:
  assumes res: "POST_resolve e req s = Inr r"
    and pk: "distinct (map mp_id (medicationProcesses s))"
  shows "POST accepts e req s =
     (if POST_query r s = [] then (noPatients (line_displayName (selectedLine r)), s)
      else (if list_all accepts (map (scanData e r) (POST_query r s))
            then success (length (POST_query r s)) (line_displayName (selectedLine r))
            else internalServerError,
            s\<lparr>medicationProcesses :=
                 map (\<lambda>q. if eligible s (dp_id (currentDailyProcess r)) (destinationLineId r) q
                          then dispatched e q else q) (medicationProcesses s),
              qRScanRecords :=
                 qRScanRecords s @ filter accepts (map (scanData e r) (POST_query r s))\<rparr>))"
proof (cases "POST_query r s = []")
  case True
  with res show ?thesis by (simp add: POST_def POST_read_def POST_write_def)
next
  case False
  let ?P = "eligible s (dp_id (currentDailyProcess r)) (destinationLineId r)"
  let ?tbl = "medicationProcesses s"
  have q: "POST_query r s = filter ?P ?tbl"
    by (simp add: POST_query_def medicationProcess_findMany_def)
  have rows: "\<forall>p \<in> set (POST_query r s). \<exists>q \<in> set ?tbl. mp_id q = mp_id p \<and> mp_patientId q = mp_patientId p"
    unfolding q by auto
  have tbl: "map (\<lambda>q. if mp_id q \<in> mp_id ` set (POST_query r s) then dispatched e q else q) ?tbl =
             map (\<lambda>q. if ?P q then dispatched e q else q) ?tbl"
    unfolding q using id_in_filter[OF pk] by (intro map_cong) auto
  have "POST accepts e req s = POST_commit accepts e r (POST_query r s) s"
    using res False by (simp add: POST_def POST_read_def POST_write_def)
  also note POST_commit_eq[OF pk rows]
  finally show ?thesis using False by (simp only: tbl if_False)
qed

subsection \<open>The handler on the ward\<close>

lemmas ward_defs = ward_def process_def scanRequest_def noon_def ward_resolved_def
  profile_findUnique_def line_findUnique_def qRCode_findUnique_def lookup_text_def
  dailyProcess_findFirst_def
  date_in_query_def setHours_def

lemma ward_resolve_L2:
  "POST_resolve noon (scanRequest ''u1'' t ''L2'' ''QR-DEV'') ward =
     (if t = JUndefined \<or> t = JNull then Inl temperatureRequired else Inr (ward_resolved t ''L2'' ''Linea 2''))"
  by (simp add: POST_resolve_def ward_defs)

lemma ward_query_L2:
  "POST_query (ward_resolved t ''L2'' ''Linea 2'') ward =
    [process ''m1'' ''pa'' ''DEVOLUCION'' IN_PROGRESS,
         process ''m2'' ''pb'' ''DEVOLUCION'' IN_PROGRESS,
         process ''m3'' ''pc'' ''DEVOLUCION'' IN_PROGRESS]"
  by (simp add: POST_query_def medicationProcess_findMany_def eligible_def patient_service_lineId_def ward_def process_def ward_resolved_def)

lemma ward_pk: "distinct (map mp_id (medicationProcesses ward))"
  by (simp add: ward_def process_def)

lemma ward_eligible_L2:
  "map (\<lambda>q. if eligible ward ''d1'' ''L2'' q then dispatched noon q else q) (medicationProcesses ward)
     = ward_dispatched"
  by (simp add: eligible_def patient_service_lineId_def ward_def process_def dispatched_def
      noon_def ward_dispatched_def)

lemma ward_records_L2:
  "map (scanData noon (ward_resolved t ''L2'' ''Linea 2'')) (POST_query (ward_resolved t ''L2'' ''Linea 2'') ward)
     = [ward_record t ''pa'', ward_record t ''pb'', ward_record t ''pc'']"
  by (simp add: ward_query_L2) (simp add: scanData_def ward_resolved_def process_def ward_record_def noon_def)

lemma ward_resolved_sel [simp]:
  "dp_id (currentDailyProcess (ward_resolved t l n)) = ''d1''"
  "destinationLineId (ward_resolved t l n) = l"
  "line_displayName (selectedLine (ward_resolved t l n)) = n"
  by (simp_all add: ward_resolved_def)

lemma ward_POST_accepts:
  assumes "t \<noteq> JUndefined" and "t \<noteq> JNull"
  shows "POST accepts noon (scanRequest ''u1'' t ''L2'' ''QR-DEV'') ward =
    (if list_all accepts [ward_record t ''pa'', ward_record t ''pb'', ward_record t ''pc'']
     then success 3 ''Linea 2'' else internalServerError,
     ward\<lparr>medicationProcesses := ward_dispatched,
          qRScanRecords :=
            filter accepts [ward_record t ''pa'', ward_record t ''pb'', ward_record t ''pc'']\<rparr>)"
proof -
  have res: "POST_resolve noon (scanRequest ''u1'' t ''L2'' ''QR-DEV'') ward =
      Inr (ward_resolved t ''L2'' ''Linea 2'')"
    using assms by (simp add: ward_resolve_L2)
  have old: "qRScanRecords ward = []" by (simp add: ward_def)
  have len: "length (POST_query (ward_resolved t ''L2'' ''Linea 2'') ward) = 3"
    by (simp add: ward_query_L2)
  have ne: "POST_query (ward_resolved t ''L2'' ''Linea 2'') ward \<noteq> []"
    by (simp add: ward_query_L2)
  show ?thesis
    unfolding POST_Inr[OF res ward_pk] ward_records_L2 len
    by (simp only: ne if_False ward_resolved_sel ward_eligible_L2 old append_Nil)
qed

lemma ward_POST:
  "POST accepts_all noon (scanRequest ''u1'' (JNum 4) ''L2'' ''QR-DEV'') ward =
    (success 3 ''Linea 2'', ward\<lparr>medicationProcesses := ward_dispatched,
       qRScanRecords := [ward_record (JNum 4) ''pa'', ward_record (JNum 4) ''pb'', ward_record (JNum 4) ''pc'']\<rparr>)"
  by (simp add: ward_POST_accepts accepts_all_def)

subsection \<open>Two overlapping handlers\<close>

lemma dispatched_twice [simp]: "dispatched e2 (dispatched e1 p) = dispatched e2 p"
  by (simp add: dispatched_def)

lemma POST_read_Inr:
  "POST_resolve e req s = Inr r \<Longrightarrow> POST_query r s \<noteq> [] \<Longrightarrow>
   POST_read e req s = Inr (r, POST_query r s)"
  by (simp add: POST_read_def)

lemma POST_query_rows:
  "\<forall>p \<in> set (POST_query r s). p \<in> set (medicationProcesses s)"
  by (simp add: POST_query_def medicationProcess_findMany_def)

lemma POST_query_ids:
  assumes "distinct (map mp_id (medicationProcesses s))" and "q \<in> set (medicationProcesses s)"
  shows "mp_id q \<in> mp_id ` set (POST_query r s) \<longleftrightarrow>
         eligible s (dp_id (currentDailyProcess r)) (destinationLineId r) q"
  unfolding POST_query_def medicationProcess_findMany_def
  using assms by (rule id_in_filter)

lemma POST_overlapped_eq:
  assumes res1: "POST_resolve e1 req1 s = Inr r1"
    and res2: "POST_resolve e2 req2 s = Inr r2"
    and pk: "distinct (map mp_id (medicationProcesses s))"
    and ne1: "POST_query r1 s \<noteq> []"
    and ne2: "POST_query r2 s \<noteq> []"
    and acc1: "list_all accepts (map (scanData e1 r1) (POST_query r1 s))"
    and acc2: "list_all accepts (map (scanData e2 r2) (POST_query r2 s))"
  shows "POST_overlapped accepts e1 req1 e2 req2 s =
     (success (length (POST_query r1 s)) (line_displayName (selectedLine r1)),
      success (length (POST_query r2 s)) (line_displayName (selectedLine r2)),
      s\<lparr>medicationProcesses :=
           map (\<lambda>q. if eligible s (dp_id (currentDailyProcess r2)) (destinationLineId r2) q
                    then dispatched e2 q
                    else if eligible s (dp_id (currentDailyProcess r1)) (destinationLineId r1) q
                    then dispatched e1 q else q) (medicationProcesses s),
        qRScanRecords :=
           qRScanRecords s @ map (scanData e1 r1) (POST_query r1 s) @
           map (scanData e2 r2) (POST_query r2 s)\<rparr>)"
proof -
  let ?tbl = "medicationProcesses s"
  let ?ps1 = "POST_query r1 s" and ?ps2 = "POST_query r2 s"
  let ?g1 = "\<lambda>q. if mp_id q \<in> mp_id ` set ?ps1 then dispatched e1 q else q"
  let ?g2 = "\<lambda>q. if mp_id q \<in> mp_id ` set ?ps2 then dispatched e2 q else q"
  let ?s1 = "s\<lparr>medicationProcesses := map ?g1 ?tbl,
                qRScanRecords := qRScanRecords s @ map (scanData e1 r1) ?ps1\<rparr>"
  have f1: "filter accepts (map (scanData e1 r1) ?ps1) = map (scanData e1 r1) ?ps1"
    using acc1 by (simp add: list_all_iff)
  have f2: "filter accepts (map (scanData e2 r2) ?ps2) = map (scanData e2 r2) ?ps2"
    using acc2 by (simp add: list_all_iff)
  have rows1: "\<forall>p \<in> set ?ps1. \<exists>q \<in> set ?tbl. mp_id q = mp_id p \<and> mp_patientId q = mp_patientId p"
    using POST_query_rows[of r1 s] by blast
  have c1: "POST_commit accepts e1 r1 ?ps1 s =
      (success (length ?ps1) (line_displayName (selectedLine r1)), ?s1)"
    using POST_commit_eq[OF pk rows1, of accepts e1 r1] acc1 f1 by simp
  have ids: "map mp_id (map ?g1 ?tbl) = map mp_id ?tbl" by (induction ?tbl) auto
  have pk1: "distinct (map mp_id (medicationProcesses ?s1))"
    using pk by (simp add: ids del: map_map)
  have rows2: "\<forall>p \<in> set ?ps2. \<exists>q \<in> set (medicationProcesses ?s1).
      mp_id q = mp_id p \<and> mp_patientId q = mp_patientId p"
  proof
    fix p assume "p \<in> set ?ps2"
    then have "p \<in> set ?tbl" using POST_query_rows[of r2 s] by blast
    then have "?g1 p \<in> set (medicationProcesses ?s1)" by simp
    moreover have "mp_id (?g1 p) = mp_id p \<and> mp_patientId (?g1 p) = mp_patientId p" by simp
    ultimately show "\<exists>q \<in> set (medicationProcesses ?s1). mp_id q = mp_id p \<and> mp_patientId q = mp_patientId p"
      by blast
  qed
  have tbl: "map (\<lambda>x. ?g2 (?g1 x)) ?tbl =
      map (\<lambda>q. if eligible s (dp_id (currentDailyProcess r2)) (destinationLineId r2) q
               then dispatched e2 q
               else if eligible s (dp_id (currentDailyProcess r1)) (destinationLineId r1) q
               then dispatched e1 q else q) ?tbl"
  proof (rule map_cong[OF refl])
    fix q assume "q \<in> set ?tbl"
    from POST_query_ids[OF pk this]
    show "?g2 (?g1 q) =
      (if eligible s (dp_id (currentDailyProcess r2)) (destinationLineId r2) q
       then dispatched e2 q
       else if eligible s (dp_id (currentDailyProcess r1)) (destinationLineId r1) q
       then dispatched e1 q else q)"
      by simp
  qed
  have c2: "POST_commit accepts e2 r2 ?ps2 ?s1 =
      (success (length ?ps2) (line_displayName (selectedLine r2)),
       ?s1\<lparr>medicationProcesses := map ?g2 (medicationProcesses ?s1),
           qRScanRecords := qRScanRecords ?s1 @ map (scanData e2 r2) ?ps2\<rparr>)"
    using POST_commit_eq[OF pk1 rows2, of accepts e2 r2] acc2 f2 by simp
  show ?thesis
    unfolding POST_overlapped_def POST_read_Inr[OF res1 ne1] POST_read_Inr[OF res2 ne2]
    by (simp add: POST_write_def c1 c2 comp_def tbl)
qed

subsection \<open>The checks before the query\<close>

lemma POST_resolve_body:
  assumes "\<not> sessionError req"
    and "sessionUser req = Some uid"
    and "profile_findUnique s uid = Some prof"
    and "requestBody req = Some b"
    and "destructure b = Some (qrId, temp, lineId, ttype)"
  shows "POST_resolve e req s =
     (if falsy qrId then Inl qrIdRequired
      else if temp = JUndefined \<or> temp = JNull then Inl temperatureRequired
      else if falsy lineId then Inl destinationLineRequired
      else if falsy ttype then Inl transactionTypeRequired
      else
     (case where_string lineId of
        None \<Rightarrow> Inl internalServerError
      | Some lid \<Rightarrow>
     (case line_findUnique s lid of
        Throws \<Rightarrow> Inl internalServerError
      | NoRow \<Rightarrow> Inl invalidDestinationLine
      | Row sel \<Rightarrow>
     (case where_string qrId of
        None \<Rightarrow> Inl internalServerError
      | Some q \<Rightarrow>
     (case qRCode_findUnique s q of
        Throws \<Rightarrow> Inl internalServerError
      | NoRow \<Rightarrow> Inl invalidQrCode
      | Row c \<Rightarrow>
     if \<not> qr_isActive c \<or> qr_type c \<noteq> ''PHARMACY_DISPATCH_DEVOLUTION'' then Inl invalidQrCode
     else
     (case dailyProcess_findFirst e s of
        None \<Rightarrow> Inl noActiveDailyProcess
      | Some d \<Rightarrow>
          Inr \<lparr>user_id = uid, temperature = temp, destinationLineId = lid,
               transactionType = ttype, selectedLine = sel, qrCode = c,
               currentDailyProcess = d\<rparr>))))))"
  using assms by (simp add: POST_resolve_def)

lemma POST_resolve_no_temperature:
  assumes "\<not> sessionError req"
    and "sessionUser req = Some uid"
    and "profile_findUnique s uid = Some prof"
    and "requestBody req = Some b"
    and "destructure b = Some (qrId, temp, lineId, ttype)"
    and "temp = JUndefined \<or> temp = JNull"
  shows "POST_resolve e req s = Inl (if falsy qrId then qrIdRequired else temperatureRequired)"
  using assms(6) by (auto simp: POST_resolve_body[OF assms(1-5)])

lemma POST_resolve_no_line:
  assumes "\<not> sessionError req"
    and "sessionUser req = Some uid"
    and "profile_findUnique s uid = Some prof"
    and "requestBody req = Some b"
    and "destructure b = Some (qrId, temp, lineId, ttype)"
    and "falsy lineId \<or> (\<exists>lid. lineId = JStr lid \<and> line_findUnique s lid = NoRow)"
  shows "POST_resolve e req s =
     Inl (if falsy qrId then qrIdRequired
          else if temp = JUndefined \<or> temp = JNull then temperatureRequired
          else if falsy lineId then destinationLineRequired
          else if falsy ttype then transactionTypeRequired
          else invalidDestinationLine)"
  using assms(6) by (auto simp: POST_resolve_body[OF assms(1-5)])

lemma POST_resolve_line_found:
  assumes "\<not> sessionError req"
    and "sessionUser req = Some uid"
    and "profile_findUnique s uid = Some prof"
    and "requestBody req = Some b"
    and "destructure b = Some (JStr q, temp, JStr lid, ttype)"
    and "q \<noteq> []" and "temp \<noteq> JUndefined" and "temp \<noteq> JNull"
    and "lid \<noteq> []" and "\<not> falsy ttype"
    and "line_findUnique s lid = Row sel"
  shows "POST_resolve e req s =
     (case qRCode_findUnique s q of
        Throws \<Rightarrow> Inl internalServerError
      | NoRow \<Rightarrow> Inl invalidQrCode
      | Row c \<Rightarrow>
          if \<not> qr_isActive c \<or> qr_type c \<noteq> ''PHARMACY_DISPATCH_DEVOLUTION''
          then Inl invalidQrCode
          else (case dailyProcess_findFirst e s of
                  None \<Rightarrow> Inl noActiveDailyProcess
                | Some d \<Rightarrow>
                    Inr \<lparr>user_id = uid, temperature = temp, destinationLineId = lid,
                         transactionType = ttype, selectedLine = sel, qrCode = c,
                         currentDailyProcess = d\<rparr>))"
  using assms(6-) by (simp add: POST_resolve_body[OF assms(1-5)])

lemma POST_resolve_passes:
  assumes "\<not> sessionError req"
    and "sessionUser req = Some uid"
    and "profile_findUnique s uid = Some prof"
    and "requestBody req = Some b"
    and "destructure b = Some (JStr q, temp, JStr lid, ttype)"
    and "q \<noteq> []" and "temp \<noteq> JUndefined" and "temp \<noteq> JNull"
    and "lid \<noteq> []" and "\<not> falsy ttype"
    and "line_findUnique s lid = Row sel"
    and "qRCode_findUnique s q = Row c"
    and "qr_isActive c" and "qr_type c = ''PHARMACY_DISPATCH_DEVOLUTION''"
    and "dailyProcess_findFirst e s = Some d"
  shows "POST_resolve e req s =
     Inr \<lparr>user_id = uid, temperature = temp, destinationLineId = lid,
          transactionType = ttype, selectedLine = sel, qrCode = c,
          currentDailyProcess = d\<rparr>"
  using assms(12-) by (simp add: POST_resolve_line_found[OF assms(1-11)])

text \<open>A destination line id that holds U+0000 makes the lookup throw: the answer is 500.\<close>

lemma POST_resolve_nul_line:
  assumes "\<not> sessionError req"
    and "sessionUser req = Some uid"
    and "profile_findUnique s uid = Some prof"
    and "requestBody req = Some b"
    and "destructure b = Some (qrId, temp, JStr lid, ttype)"
    and "\<not> falsy qrId" and "temp \<noteq> JUndefined" and "temp \<noteq> JNull"
    and "\<not> falsy ttype"
    and "CHR 0x00 \<in> set lid"
  shows "POST accepts e req s = (Response 500 (ErrorBody ''Internal server error''), s)"
proof -
  have "lid \<noteq> []" using assms(10) by auto
  then have "POST_resolve e req s = Inl internalServerError"
    using assms(6-) by (simp add: POST_resolve_body[OF assms(1-5)] line_findUnique_def lookup_text_def)
  then show ?thesis by (simp add: POST_Inl internalServerError_def)
qed

subsection \<open>The current daily process\<close>

text \<open>
  The daily process the handler resolves is a row of the table whose date lies in the
  queried interval and whose \<^verbatim>\<open>createdAt\<close> no other such row exceeds. It is the one whose id
  the query for the medication processes (\<open>POST_query\<close>) and every scan record
  (\<open>scanData\<close>) use.
\<close>

lemma first_createdAt_desc_mem:
  "first_createdAt_desc ds = Some d \<Longrightarrow> d \<in> set ds"
  by (induction ds arbitrary: d) (auto split: option.splits if_splits)

lemma first_createdAt_desc_None: "first_createdAt_desc ds = None \<longleftrightarrow> ds = []"
  by (cases ds) (auto split: option.splits if_splits)

lemma first_createdAt_desc_max:
  "first_createdAt_desc ds = Some d \<Longrightarrow> x \<in> set ds \<Longrightarrow> dp_createdAt x \<le> dp_createdAt d"
proof (induction ds arbitrary: d)
  case Nil
  then show ?case by simp
next
  case (Cons a ds)
  show ?case
  proof (cases "first_createdAt_desc ds")
    case None
    then have "ds = []" by (simp add: first_createdAt_desc_None)
    with Cons.prems None show ?thesis by simp
  next
    case (Some m)
    from Cons.IH[OF Some] have ih: "x \<in> set ds \<Longrightarrow> dp_createdAt x \<le> dp_createdAt m"
      by simp
    from Cons.prems Some ih show ?thesis
      by (auto split: if_splits)
  qed
qed

lemma POST_resolve_batch:
  "POST_resolve e req s = Inr r \<Longrightarrow> dailyProcess_findFirst e s = Some (currentDailyProcess r)"
  by (auto simp: POST_resolve_def split: option.splits lookup.splits if_splits prod.splits)

lemma current_batch_latest:
  assumes "POST_resolve e req s = Inr r"
  shows "currentDailyProcess r \<in> set (dailyProcesses s) \<and>
         date_in_query e (currentDailyProcess r) \<and>
         (\<forall>d \<in> set (dailyProcesses s). date_in_query e d \<longrightarrow>
            dp_createdAt d \<le> dp_createdAt (currentDailyProcess r))"
proof -
  from POST_resolve_batch[OF assms]
  have f: "first_createdAt_desc (filter (date_in_query e) (dailyProcesses s)) =
      Some (currentDailyProcess r)"
    by (simp add: dailyProcess_findFirst_def)
  from first_createdAt_desc_mem[OF f] first_createdAt_desc_max[OF f]
  show ?thesis by auto
qed

lemma setHours_end: "setHours e 23 59 59 999 = setHours e 0 0 0 0 + 86399999"
  by (simp add: setHours_def)

subsection \<open>The handler run twice\<close>

lemma POST_frame_resolved:
  assumes res: "POST_resolve e req s = Inr r"
    and pk: "distinct (map mp_id (medicationProcesses s))"
  shows "medicationProcesses (snd (POST accepts e req s)) =
       map (\<lambda>q. if eligible s (dp_id (currentDailyProcess r)) (destinationLineId r) q
                then dispatched e q else q) (medicationProcesses s)"
proof (cases "POST_query r s = []")
  case True
  then have "\<forall>q \<in> set (medicationProcesses s).
      \<not> eligible s (dp_id (currentDailyProcess r)) (destinationLineId r) q"
    by (simp add: POST_query_def medicationProcess_findMany_def filter_empty_conv)
  then have "map (\<lambda>q. if eligible s (dp_id (currentDailyProcess r)) (destinationLineId r) q
                then dispatched e q else q) (medicationProcesses s) = medicationProcesses s"
    by (simp add: map_idI)
  with True show ?thesis by (simp add: POST_Inr[OF res pk])
next
  case False
  then show ?thesis by (simp add: POST_Inr[OF res pk])
qed

lemma POST_resolve_clock:
  "dailyProcess_findFirst e' s = dailyProcess_findFirst e s \<Longrightarrow>
   POST_resolve e' req s = POST_resolve e req s"
  by (simp add: POST_resolve_def
      cong: option.case_cong prod.case_cong lookup.case_cong if_cong)

lemma POST_query_after:
  "POST_query r (s\<lparr>medicationProcesses :=
       map (\<lambda>q. if eligible s (dp_id (currentDailyProcess r)) (destinationLineId r) q
                then dispatched e q else q) (medicationProcesses s),
     qRScanRecords := b\<rparr>) = []"
  by (auto simp: POST_query_def medicationProcess_findMany_def eligible_frame
      filter_empty_conv not_eligible_dispatched)

lemma POST_second:
  assumes res: "POST_resolve e req s = Inr r"
    and pk: "distinct (map mp_id (medicationProcesses s))"
    and clock: "dailyProcess_findFirst e' s = dailyProcess_findFirst e s"
  shows "POST_query r (snd (POST accepts e req s)) = [] \<and>
     POST accepts e' req (snd (POST accepts e req s)) =
       (noPatients (line_displayName (selectedLine r)), snd (POST accepts e req s))"
proof -
  let ?s1 = "snd (POST accepts e req s)"
  have res': "POST_resolve e' req s = Inr r"
    using res POST_resolve_clock[OF clock] by simp
  have empty: "POST_query r ?s1 = []" and res1: "POST_resolve e' req ?s1 = Inr r"
  proof -
    show "POST_query r ?s1 = []"
    proof (cases "POST_query r s = []")
      case True
      then show ?thesis by (simp add: POST_Inr[OF res pk])
    next
      case False
      then show ?thesis by (simp add: POST_Inr[OF res pk] POST_query_after)
    qed
    show "POST_resolve e' req ?s1 = Inr r"
      by (cases "POST_query r s = []") (simp_all add: POST_Inr[OF res pk] POST_resolve_frame res')
  qed
  from res1 empty show ?thesis
    by (simp add: POST_def POST_read_def POST_write_def)
qed

lemma POST_resolve_Inl_not_200:
  "POST_resolve e req s = Inl resp \<Longrightarrow> resp \<noteq> Response 200 b"
  by (auto simp: POST_resolve_def unauthorized_def profileNotFound_def internalServerError_def
      qrIdRequired_def temperatureRequired_def destinationLineRequired_def
      transactionTypeRequired_def invalidDestinationLine_def invalidQrCode_def
      noActiveDailyProcess_def
      split: option.splits lookup.splits if_splits prod.splits)

lemma POST_second_unresolved:
  assumes res: "POST_resolve e req s = Inl x"
    and clock: "dailyProcess_findFirst e' s = dailyProcess_findFirst e s"
  shows "POST accepts e' req (snd (POST accepts e req s)) = (x, snd (POST accepts e req s))"
proof -
  have "POST_resolve e' req s = Inl x"
    using res POST_resolve_clock[OF clock] by simp
  then show ?thesis by (simp add: POST_Inl[OF res] POST_Inl)
qed

subsection \<open>More runs on the ward\<close>

lemma ward_nth:
  "medicationProcesses ward ! 3 = process ''m4'' ''pd'' ''DEVOLUCION'' IN_PROGRESS"
  "medicationProcesses ward ! 4 = process ''m5'' ''pa'' ''DISPENSACION'' IN_PROGRESS"
  "length (medicationProcesses ward) = 5"
  by (simp_all add: ward_def numeral_3_eq_3 eval_nat_numeral)

lemma ward_clock: "dailyProcess_findFirst later ward = dailyProcess_findFirst noon ward"
  by (simp add: dailyProcess_findFirst_def date_in_query_def setHours_def later_def noon_def ward_def)

lemma ward_resolve_L3:
  "POST_resolve noon (scanRequest ''u1'' (JNum 4) ''L3'' ''QR-DEV'') ward =
     Inr (ward_resolved (JNum 4) ''L3'' ''Linea 3'')"
  by (simp add: POST_resolve_def ward_defs)

lemma ward_query_L3: "POST_query (ward_resolved t ''L3'' ''Linea 3'') ward = []"
  by (simp add: POST_query_def medicationProcess_findMany_def eligible_def
      patient_service_lineId_def ward_def process_def ward_resolved_def)

lemma scanRequest_sel:
  "\<not> sessionError (scanRequest uid t lid q)"
  "sessionUser (scanRequest uid t lid q) = Some uid"
  "requestBody (scanRequest uid t lid q) =
     Some (JObj [(''qrId'', JStr q), (''temperature'', t),
        (''destinationLineId'', JStr lid), (''transactionType'', JStr ''DEVOLUCION'')])"
  "destructure (JObj [(''qrId'', JStr q), (''temperature'', t),
        (''destinationLineId'', JStr lid), (''transactionType'', JStr ''DEVOLUCION'')]) =
     Some (JStr q, t, JStr lid, JStr ''DEVOLUCION'')"
  by (simp_all add: scanRequest_def)

lemma ward_profile:
  "profile_findUnique ward ''u1'' = Some \<lparr>profile_id = ''pr1'', profile_userId = ''u1''\<rparr>"
  "profile_findUnique ward_no_batch ''u1'' = Some \<lparr>profile_id = ''pr1'', profile_userId = ''u1''\<rparr>"
  by (simp_all add: profile_findUnique_def ward_def ward_no_batch_def)

lemma ward_lookups:
  "line_findUnique ward ''L9'' = NoRow"
  "qRCode_findUnique ward ''QR-XX'' = NoRow"
  "line_findUnique ward ''L2'' = Row \<lparr>line_id = ''L2'', line_displayName = ''Linea 2''\<rparr>"
  "qRCode_findUnique ward ''QR-DEV'' =
     Row \<lparr>qr_id = ''q1'', qr_qrId = ''QR-DEV'',
          qr_type = ''PHARMACY_DISPATCH_DEVOLUTION'', qr_isActive = True\<rparr>"
  "line_findUnique ward_no_batch ''L2'' =
     Row \<lparr>line_id = ''L2'', line_displayName = ''Linea 2''\<rparr>"
  "qRCode_findUnique ward_no_batch ''QR-XX'' = NoRow"
  "qRCode_findUnique ward_no_batch ''QR-DEV'' =
     Row \<lparr>qr_id = ''q1'', qr_qrId = ''QR-DEV'',
          qr_type = ''PHARMACY_DISPATCH_DEVOLUTION'', qr_isActive = True\<rparr>"
  "dailyProcess_findFirst e ward_no_batch = None"
  "dailyProcess_findFirst noon ward = Some \<lparr>dp_id = ''d1'', dp_date = 0, dp_createdAt = 100\<rparr>"
  by (simp_all add: line_findUnique_def qRCode_findUnique_def lookup_text_def
      dailyProcess_findFirst_def date_in_query_def setHours_def noon_def
      ward_def ward_no_batch_def)

lemma ward_bad_line_and_token:
  "POST accepts noon (scanRequest ''u1'' (JNum 4) ''L9'' ''QR-XX'') ward =
     (Response 400 (ErrorBody ''Invalid destination line''), ward)"
proof -
  have "POST_resolve noon (scanRequest ''u1'' (JNum 4) ''L9'' ''QR-XX'') ward =
      Inl invalidDestinationLine"
    using POST_resolve_no_line[where e = noon,
        OF scanRequest_sel(1,2)[of "''u1''" "JNum 4" "''L9''" "''QR-XX''"] ward_profile(1)
          scanRequest_sel(3)[of "''u1''" "JNum 4" "''L9''" "''QR-XX''"]
          scanRequest_sel(4)[of "''QR-XX''" "JNum 4" "''L9''"]]
    by (simp add: ward_lookups)
  then show ?thesis by (simp add: POST_Inl invalidDestinationLine_def)
qed

lemma ward_overlapped:
  "POST_overlapped accepts_all noon (scanRequest ''u1'' (JNum 4) ''L2'' ''QR-DEV'')
       noon (scanRequest ''u1'' (JNum 4) ''L2'' ''QR-DEV'') ward =
     (success 3 ''Linea 2'', success 3 ''Linea 2'',
      ward\<lparr>medicationProcesses := ward_dispatched,
           qRScanRecords := [ward_record (JNum 4) ''pa'', ward_record (JNum 4) ''pb'',
                             ward_record (JNum 4) ''pc'', ward_record (JNum 4) ''pa'',
                             ward_record (JNum 4) ''pb'', ward_record (JNum 4) ''pc'']\<rparr>)"
proof -
  have res: "POST_resolve noon (scanRequest ''u1'' (JNum 4) ''L2'' ''QR-DEV'') ward =
     Inr (ward_resolved (JNum 4) ''L2'' ''Linea 2'')"
    by (simp add: ward_resolve_L2)
  have ne: "POST_query (ward_resolved (JNum 4) ''L2'' ''Linea 2'') ward \<noteq> []"
    by (simp add: ward_query_L2)
  have acc: "list_all accepts_all
       (map (scanData noon (ward_resolved (JNum 4) ''L2'' ''Linea 2''))
          (POST_query (ward_resolved (JNum 4) ''L2'' ''Linea 2'') ward))"
    by (simp add: ward_records_L2 accepts_all_def)
  have len: "length (POST_query (ward_resolved (JNum 4) ''L2'' ''Linea 2'') ward) = 3"
    by (simp add: ward_query_L2)
  have old: "qRScanRecords ward = []" by (simp add: ward_def)
  have tbl: "map (\<lambda>q. if eligible ward ''d1'' ''L2'' q then dispatched noon q
                     else if eligible ward ''d1'' ''L2'' q then dispatched noon q else q)
               (medicationProcesses ward) = ward_dispatched"
    using ward_eligible_L2 by (simp cong: if_cong)
  show ?thesis
    unfolding POST_overlapped_eq[OF res res ward_pk ne ne acc acc] ward_records_L2 len
    by (simp only: ward_resolved_sel tbl old append_Nil append_Cons)
qed

section \<open>The claims\<close>

text \<open>
  Throughout, \<open>distinct (map mp_id (medicationProcesses s))\<close> says that the id is the primary
  key of the medication processes, and \<open>POST_resolve e req s = Inr r\<close> that the request got
  past the session, the profile, the required fields, the destination line, the QR code
  and the daily process, with \<open>r\<close> what the handler resolved.
\<close>



text \<open>
  C4: when the request resolves and no medication process matches the current daily
  process, the step DEVOLUCION, the status IN_PROGRESS and the destination line, the
  handler answers 400 with the "no patients" error for the line, and the store is
  returned as it was: no update, no scan record.
\<close>

theorem no_eligible_processes:
  assumes "POST_resolve e req s = Inr r"
    and "POST_query r s = []"
  shows "POST accepts e req s =
           (Response 400 (ErrorMessageBody (noPatientsError (line_displayName (selectedLine r)))
              noPatientsMessage), s)"
  using assms by (simp add: POST_def POST_read_def POST_write_def noPatients_def)

theorem no_eligible_processes_witness:
  "POST_resolve noon (scanRequest ''u1'' (JNum 4) ''L3'' ''QR-DEV'') ward =
     Inr (ward_resolved (JNum 4) ''L3'' ''Linea 3'') \<and>
   POST_query (ward_resolved (JNum 4) ''L3'' ''Linea 3'') ward = [] \<and>
   POST accepts_all noon (scanRequest ''u1'' (JNum 4) ''L3'' ''QR-DEV'') ward =
     (Response 400 (ErrorMessageBody (noPatientsError ''Linea 3'') noPatientsMessage), ward)"
  using no_eligible_processes[OF ward_resolve_L3 ward_query_L3, of accepts_all]
    ward_resolve_L3 ward_query_L3
  by simp

text \<open>
  C7: every dispatch that answers 200 had a non-empty eligible set; with \<open>n\<close> its size,
  the body reports \<open>n\<close> as the patients' count, the display name of the resolved line and
  the fixed next-step text; exactly the eligible processes are rewritten to
  DISPATCHED_FROM_PHARMACY, and one scan record per eligible process is appended. On the
  ward, three patients of line 2 are eligible: the count is 3, three processes are
  dispatched and three scan records are written.
\<close>

theorem success_report:
  assumes res: "POST_resolve e req s = Inr r"
    and pk: "distinct (map mp_id (medicationProcesses s))"
    and ok: "POST accepts e req s = (Response 200 b, s')"
  shows "POST_query r s \<noteq> [] \<and>
     b = SuccessBody
           (successMessage (length (POST_query r s)) (line_displayName (selectedLine r)))
           (length (POST_query r s)) (line_displayName (selectedLine r)) nextStep \<and>
     medicationProcesses s' =
       map (\<lambda>q. if eligible s (dp_id (currentDailyProcess r)) (destinationLineId r) q
                then dispatched e q else q) (medicationProcesses s) \<and>
     qRScanRecords s' = qRScanRecords s @ map (scanData e r) (POST_query r s)"
proof -
  note eq = POST_Inr[OF res pk, of accepts]
  have ne: "POST_query r s \<noteq> []"
    using eq ok by (auto simp: noPatients_def)
  have acc: "list_all accepts (map (scanData e r) (POST_query r s))"
    using eq ok ne by (auto simp: internalServerError_def split: if_splits)
  then have f: "filter accepts (map (scanData e r) (POST_query r s)) =
      map (scanData e r) (POST_query r s)"
    by (simp add: list_all_iff)
  from eq ok ne acc f show ?thesis
    by (auto simp: success_def)
qed

theorem success_report_witness:
  "POST_resolve noon (scanRequest ''u1'' (JNum 4) ''L2'' ''QR-DEV'') ward =
     Inr (ward_resolved (JNum 4) ''L2'' ''Linea 2'') \<and>
   distinct (map mp_id (medicationProcesses ward)) \<and>
   POST accepts_all noon (scanRequest ''u1'' (JNum 4) ''L2'' ''QR-DEV'') ward =
     (Response 200 (SuccessBody (successMessage 3 ''Linea 2'') 3 ''Linea 2'' nextStep),
      ward\<lparr>medicationProcesses := ward_dispatched,
           qRScanRecords := [ward_record (JNum 4) ''pa'', ward_record (JNum 4) ''pb'',
                             ward_record (JNum 4) ''pc'']\<rparr>) \<and>
   length (POST_query (ward_resolved (JNum 4) ''L2'' ''Linea 2'') ward) = 3 \<and>
   map mp_status (take 3 ward_dispatched) =
     [DISPATCHED_FROM_PHARMACY, DISPATCHED_FROM_PHARMACY, DISPATCHED_FROM_PHARMACY]"
proof -
  have res: "POST_resolve noon (scanRequest ''u1'' (JNum 4) ''L2'' ''QR-DEV'') ward =
     Inr (ward_resolved (JNum 4) ''L2'' ''Linea 2'')"
    by (simp add: ward_resolve_L2)
  have ok: "POST accepts_all noon (scanRequest ''u1'' (JNum 4) ''L2'' ''QR-DEV'') ward =
     (Response 200 (SuccessBody (successMessage 3 ''Linea 2'') 3 ''Linea 2'' nextStep),
      ward\<lparr>medicationProcesses := ward_dispatched,
           qRScanRecords := [ward_record (JNum 4) ''pa'', ward_record (JNum 4) ''pb'',
                             ward_record (JNum 4) ''pc'']\<rparr>)"
    by (simp add: ward_POST success_def)
  note report = success_report[OF res ward_pk ok]
  have "SuccessBody (successMessage 3 ''Linea 2'') 3 ''Linea 2'' nextStep =
     SuccessBody (successMessage (length (POST_query (ward_resolved (JNum 4) ''L2'' ''Linea 2'') ward)) ''Linea 2'')
       (length (POST_query (ward_resolved (JNum 4) ''L2'' ''Linea 2'') ward)) ''Linea 2'' nextStep"
    using report[THEN conjunct2, THEN conjunct1] by (simp only: ward_resolved_sel)
  then have len: "length (POST_query (ward_resolved (JNum 4) ''L2'' ''Linea 2'') ward) = 3"
    by simp
  have st: "map mp_status (take 3 ward_dispatched) =
     [DISPATCHED_FROM_PHARMACY, DISPATCHED_FROM_PHARMACY, DISPATCHED_FROM_PHARMACY]"
    by (simp add: ward_dispatched_def process_def numeral_3_eq_3)
  show ?thesis by (intro conjI res ward_pk ok len st)
qed

text \<open>
  C5: a medication process that is outside the eligible set of the call (its patient's
  line is not the destination line, or its step is not DEVOLUCION, or its status is not
  IN_PROGRESS, or its daily process is not the current one) is the same row after the
  call, whatever the response; when the request does not resolve, this holds of every row.
\<close>

theorem dispatch_frame:
  assumes pk: "distinct (map mp_id (medicationProcesses s))"
    and post: "POST accepts e req s = (resp, s')"
    and i: "i < length (medicationProcesses s)"
    and out: "\<forall>r. POST_resolve e req s = Inr r \<longrightarrow>
        patient_service_lineId s (mp_patientId (medicationProcesses s ! i)) \<noteq> Some (destinationLineId r) \<or>
        mp_step (medicationProcesses s ! i) \<noteq> ''DEVOLUCION'' \<or>
        mp_status (medicationProcesses s ! i) \<noteq> IN_PROGRESS \<or>
        mp_dailyProcessId (medicationProcesses s ! i) \<noteq> dp_id (currentDailyProcess r)"
  shows "length (medicationProcesses s') = length (medicationProcesses s) \<and>
         medicationProcesses s' ! i = medicationProcesses s ! i"
proof (cases "POST_resolve e req s")
  case (Inl resp0)
  from POST_Inl[OF this, of accepts] post show ?thesis by simp
next
  case (Inr r)
  let ?P = "eligible s (dp_id (currentDailyProcess r)) (destinationLineId r)"
  from out Inr have "\<not> ?P (medicationProcesses s ! i)"
    by (auto simp: eligible_def)
  moreover have "medicationProcesses s' =
      map (\<lambda>q. if ?P q then dispatched e q else q) (medicationProcesses s)"
    using POST_frame_resolved[OF Inr pk, of accepts] post by simp
  ultimately show ?thesis using i by simp
qed

theorem dispatch_frame_witness:
  "distinct (map mp_id (medicationProcesses ward)) \<and>
   (3::nat) < length (medicationProcesses ward) \<and>
   patient_service_lineId ward (mp_patientId (medicationProcesses ward ! 3)) = Some ''L1'' \<and>
   mp_step (medicationProcesses ward ! 3) = ''DEVOLUCION'' \<and>
   mp_status (medicationProcesses ward ! 3) = IN_PROGRESS \<and>
   medicationProcesses
     (snd (POST accepts_all noon (scanRequest ''u1'' (JNum 4) ''L2'' ''QR-DEV'') ward)) ! 3 =
     medicationProcesses ward ! 3 \<and>
   (4::nat) < length (medicationProcesses ward) \<and>
   mp_step (medicationProcesses ward ! 4) = ''DISPENSACION'' \<and>
   medicationProcesses
     (snd (POST accepts_all noon (scanRequest ''u1'' (JNum 4) ''L2'' ''QR-DEV'') ward)) ! 4 =
     medicationProcesses ward ! 4"
proof -
  obtain resp s' where post:
    "POST accepts_all noon (scanRequest ''u1'' (JNum 4) ''L2'' ''QR-DEV'') ward = (resp, s')"
    by (cases "POST accepts_all noon (scanRequest ''u1'' (JNum 4) ''L2'' ''QR-DEV'') ward")
  have i: "(3::nat) < length (medicationProcesses ward)" by (simp add: ward_nth)
  have l: "patient_service_lineId ward (mp_patientId (medicationProcesses ward ! 3)) = Some ''L1''"
    by (simp add: ward_nth) (simp add: patient_service_lineId_def ward_def process_def)
  have st: "mp_step (medicationProcesses ward ! 3) = ''DEVOLUCION''"
    "mp_status (medicationProcesses ward ! 3) = IN_PROGRESS"
    by (simp_all add: ward_nth process_def)
  have out: "\<forall>r. POST_resolve noon (scanRequest ''u1'' (JNum 4) ''L2'' ''QR-DEV'') ward = Inr r \<longrightarrow>
        patient_service_lineId ward (mp_patientId (medicationProcesses ward ! 3)) \<noteq> Some (destinationLineId r) \<or>
        mp_step (medicationProcesses ward ! 3) \<noteq> ''DEVOLUCION'' \<or>
        mp_status (medicationProcesses ward ! 3) \<noteq> IN_PROGRESS \<or>
        mp_dailyProcessId (medicationProcesses ward ! 3) \<noteq> dp_id (currentDailyProcess r)"
    by (simp add: ward_resolve_L2 l)
  have j: "(4::nat) < length (medicationProcesses ward)" by (simp add: ward_nth)
  have stp: "mp_step (medicationProcesses ward ! 4) = ''DISPENSACION''"
    by (simp add: ward_nth process_def)
  have out4: "\<forall>r. POST_resolve noon (scanRequest ''u1'' (JNum 4) ''L2'' ''QR-DEV'') ward = Inr r \<longrightarrow>
        patient_service_lineId ward (mp_patientId (medicationProcesses ward ! 4)) \<noteq> Some (destinationLineId r) \<or>
        mp_step (medicationProcesses ward ! 4) \<noteq> ''DEVOLUCION'' \<or>
        mp_status (medicationProcesses ward ! 4) \<noteq> IN_PROGRESS \<or>
        mp_dailyProcessId (medicationProcesses ward ! 4) \<noteq> dp_id (currentDailyProcess r)"
    by (simp add: stp)
  from dispatch_frame[OF ward_pk post i out] post
  have r3: "medicationProcesses
     (snd (POST accepts_all noon (scanRequest ''u1'' (JNum 4) ''L2'' ''QR-DEV'') ward)) ! 3 =
     medicationProcesses ward ! 3" by simp
  from dispatch_frame[OF ward_pk post j out4] post
  have r4: "medicationProcesses
     (snd (POST accepts_all noon (scanRequest ''u1'' (JNum 4) ''L2'' ''QR-DEV'') ward)) ! 4 =
     medicationProcesses ward ! 4" by simp
  show ?thesis by (intro conjI ward_pk i l st r3 j stp r4)
qed

text \<open>
  C3: for every store and request, a second dispatch of the same request right after the
  first, at a time when the same daily process is current, never answers 200 and returns
  the store as the first call left it. When the request resolves, every process that was
  eligible is DISPATCHED_FROM_PHARMACY after the first call (rewritten once), no process
  is eligible any more, and the second call answers 400 with the "no patients" error.
\<close>

theorem dispatch_twice:
  assumes pk: "distinct (map mp_id (medicationProcesses s))"
    and first: "POST accepts e req s = (resp, s1)"
    and clock: "dailyProcess_findFirst e' s = dailyProcess_findFirst e s"
  shows "snd (POST accepts e' req s1) = s1 \<and>
     (\<forall>b. fst (POST accepts e' req s1) \<noteq> Response 200 b) \<and>
     (\<forall>r. POST_resolve e req s = Inr r \<longrightarrow>
        medicationProcesses s1 =
          map (\<lambda>q. if eligible s (dp_id (currentDailyProcess r)) (destinationLineId r) q
                   then dispatched e q else q) (medicationProcesses s) \<and>
        POST_query r s1 = [] \<and>
        POST accepts e' req s1 =
          (Response 400 (ErrorMessageBody (noPatientsError (line_displayName (selectedLine r)))
             noPatientsMessage), s1))"
proof (cases "POST_resolve e req s")
  case (Inl x)
  from POST_second_unresolved[OF Inl clock, of accepts] first
  have "POST accepts e' req s1 = (x, s1)" by simp
  with POST_resolve_Inl_not_200[OF Inl] Inl show ?thesis by simp
next
  case (Inr r)
  from POST_frame_resolved[OF Inr pk, of accepts] POST_second[OF Inr pk clock, of accepts] first
  have "medicationProcesses s1 =
          map (\<lambda>q. if eligible s (dp_id (currentDailyProcess r)) (destinationLineId r) q
                   then dispatched e q else q) (medicationProcesses s)"
    and "POST_query r s1 = []"
    and "POST accepts e' req s1 =
          (Response 400 (ErrorMessageBody (noPatientsError (line_displayName (selectedLine r)))
             noPatientsMessage), s1)"
    by (simp_all add: noPatients_def)
  with Inr show ?thesis by simp
qed

theorem dispatch_twice_witness:
  "distinct (map mp_id (medicationProcesses ward)) \<and>
   dailyProcess_findFirst later ward = dailyProcess_findFirst noon ward \<and>
   POST_resolve noon (scanRequest ''u1'' (JNum 4) ''L2'' ''QR-DEV'') ward =
     Inr (ward_resolved (JNum 4) ''L2'' ''Linea 2'') \<and>
   POST accepts_all noon (scanRequest ''u1'' (JNum 4) ''L2'' ''QR-DEV'') ward =
     (success 3 ''Linea 2'',
      ward\<lparr>medicationProcesses := ward_dispatched,
           qRScanRecords := [ward_record (JNum 4) ''pa'', ward_record (JNum 4) ''pb'',
                             ward_record (JNum 4) ''pc'']\<rparr>) \<and>
   POST accepts_all later (scanRequest ''u1'' (JNum 4) ''L2'' ''QR-DEV'')
     (ward\<lparr>medicationProcesses := ward_dispatched,
           qRScanRecords := [ward_record (JNum 4) ''pa'', ward_record (JNum 4) ''pb'',
                             ward_record (JNum 4) ''pc'']\<rparr>) =
     (Response 400 (ErrorMessageBody (noPatientsError ''Linea 2'') noPatientsMessage),
      ward\<lparr>medicationProcesses := ward_dispatched,
           qRScanRecords := [ward_record (JNum 4) ''pa'', ward_record (JNum 4) ''pb'',
                             ward_record (JNum 4) ''pc'']\<rparr>)"
proof -
  have res: "POST_resolve noon (scanRequest ''u1'' (JNum 4) ''L2'' ''QR-DEV'') ward =
     Inr (ward_resolved (JNum 4) ''L2'' ''Linea 2'')"
    by (simp add: ward_resolve_L2)
  note twice = dispatch_twice[OF ward_pk ward_POST ward_clock]
  have "POST accepts_all later (scanRequest ''u1'' (JNum 4) ''L2'' ''QR-DEV'')
     (ward\<lparr>medicationProcesses := ward_dispatched,
           qRScanRecords := [ward_record (JNum 4) ''pa'', ward_record (JNum 4) ''pb'',
                             ward_record (JNum 4) ''pc'']\<rparr>) =
     (Response 400 (ErrorMessageBody (noPatientsError ''Linea 2'') noPatientsMessage),
      ward\<lparr>medicationProcesses := ward_dispatched,
           qRScanRecords := [ward_record (JNum 4) ''pa'', ward_record (JNum 4) ''pb'',
                             ward_record (JNum 4) ''pc'']\<rparr>)"
    using twice[THEN conjunct2, THEN conjunct2, THEN spec, THEN mp, OF res,
        THEN conjunct2, THEN conjunct2]
    by (simp only: ward_resolved_sel)
  then show ?thesis by (intro conjI ward_pk ward_clock res ward_POST)
qed

text \<open>
  C6, as stated (QR code first, then daily process, then line, so that an invalid token
  together with an unknown line reports the invalid token), fails: on the ward, a scan
  with an unknown QR id and an unknown line is answered "Invalid destination line".
\<close>

theorem resolution_order_counterexample:
  "line_findUnique ward ''L9'' = NoRow \<and>
   qRCode_findUnique ward ''QR-XX'' = NoRow \<and>
   POST accepts_all noon (scanRequest ''u1'' (JNum 4) ''L9'' ''QR-XX'') ward =
     (Response 400 (ErrorBody ''Invalid destination line''), ward) \<and>
   Response 400 (ErrorBody ''Invalid destination line'') \<noteq> invalidQrCode"
  by (simp add: ward_lookups ward_bad_line_and_token invalidQrCode_def)

text \<open>
  C6, amended: for a signed-in caller with a profile whose body has all four fields
  (qrId and destinationLineId strings), the handler resolves the destination line first,
  then the QR code, then the daily process. When the lookup of the line returns no row
  (an id without U+0000 that is the id of no Line), the answer is
  "Invalid destination line" whatever the QR code and the daily process are; when the
  line is found and the lookup of the QR code returns no row, or a row that is inactive
  or of another type, the answer is the invalid-QR error whatever the daily process is;
  when the line is found and the QR code is valid, a day without daily process is
  answered "No active daily process found". The store is returned as it was in the three
  cases.
\<close>

theorem resolution_order:
  assumes "\<not> sessionError req"
    and "sessionUser req = Some uid"
    and "profile_findUnique s uid = Some prof"
    and "requestBody req = Some b"
    and "destructure b = Some (JStr q, temp, JStr lid, ttype)"
    and "q \<noteq> []" and "temp \<noteq> JUndefined" and "temp \<noteq> JNull"
    and "lid \<noteq> []" and "\<not> falsy ttype"
  shows
    "(line_findUnique s lid = NoRow \<longrightarrow>
        POST accepts e req s = (Response 400 (ErrorBody ''Invalid destination line''), s)) \<and>
     ((\<exists>sel. line_findUnique s lid = Row sel) \<and>
      (qRCode_findUnique s q = NoRow \<or>
       (\<exists>c. qRCode_findUnique s q = Row c \<and>
            (\<not> qr_isActive c \<or> qr_type c \<noteq> ''PHARMACY_DISPATCH_DEVOLUTION''))) \<longrightarrow>
        POST accepts e req s =
          (Response 400 (ErrorBody ''Invalid or inactive devolution pharmacy dispatch QR code''), s)) \<and>
     ((\<exists>sel. line_findUnique s lid = Row sel) \<and>
      (\<exists>c. qRCode_findUnique s q = Row c \<and> qr_isActive c \<and>
           qr_type c = ''PHARMACY_DISPATCH_DEVOLUTION'') \<and>
      dailyProcess_findFirst e s = None \<longrightarrow>
        POST accepts e req s = (Response 400 (ErrorBody ''No active daily process found''), s))"
proof (intro conjI impI)
  assume "line_findUnique s lid = NoRow"
  then have "POST_resolve e req s = Inl invalidDestinationLine"
    using assms(6-) POST_resolve_no_line[OF assms(1-5), of e] by simp
  then show "POST accepts e req s = (Response 400 (ErrorBody ''Invalid destination line''), s)"
    by (simp add: POST_Inl invalidDestinationLine_def)
next
  assume a: "(\<exists>sel. line_findUnique s lid = Row sel) \<and>
      (qRCode_findUnique s q = NoRow \<or>
       (\<exists>c. qRCode_findUnique s q = Row c \<and>
            (\<not> qr_isActive c \<or> qr_type c \<noteq> ''PHARMACY_DISPATCH_DEVOLUTION'')))"
  then obtain sel where sel: "line_findUnique s lid = Row sel" by blast
  from a have "POST_resolve e req s = Inl invalidQrCode"
    unfolding POST_resolve_line_found[OF assms sel] by auto
  then show "POST accepts e req s =
      (Response 400 (ErrorBody ''Invalid or inactive devolution pharmacy dispatch QR code''), s)"
    by (simp add: POST_Inl invalidQrCode_def)
next
  assume a: "(\<exists>sel. line_findUnique s lid = Row sel) \<and>
      (\<exists>c. qRCode_findUnique s q = Row c \<and> qr_isActive c \<and>
           qr_type c = ''PHARMACY_DISPATCH_DEVOLUTION'') \<and>
      dailyProcess_findFirst e s = None"
  then obtain sel where sel: "line_findUnique s lid = Row sel" by blast
  from a have "POST_resolve e req s = Inl noActiveDailyProcess"
    unfolding POST_resolve_line_found[OF assms sel] by auto
  then show "POST accepts e req s = (Response 400 (ErrorBody ''No active daily process found''), s)"
    by (simp add: POST_Inl noActiveDailyProcess_def)
qed

theorem resolution_order_witness:
  "POST accepts_all noon (scanRequest ''u1'' (JNum 4) ''L9'' ''QR-XX'') ward =
     (Response 400 (ErrorBody ''Invalid destination line''), ward) \<and>
   POST accepts_all noon (scanRequest ''u1'' (JNum 4) ''L2'' ''QR-XX'') ward_no_batch =
     (Response 400 (ErrorBody ''Invalid or inactive devolution pharmacy dispatch QR code''),
      ward_no_batch) \<and>
   POST accepts_all noon (scanRequest ''u1'' (JNum 4) ''L2'' ''QR-DEV'') ward_no_batch =
     (Response 400 (ErrorBody ''No active daily process found''), ward_no_batch)"
proof -
  have a: "POST accepts_all noon (scanRequest ''u1'' (JNum 4) ''L9'' ''QR-XX'') ward =
     (Response 400 (ErrorBody ''Invalid destination line''), ward)"
    using resolution_order[where accepts = accepts_all and e = noon,
        OF scanRequest_sel(1,2)[of "''u1''" "JNum 4" "''L9''" "''QR-XX''"] ward_profile(1)
          scanRequest_sel(3)[of "''u1''" "JNum 4" "''L9''" "''QR-XX''"]
          scanRequest_sel(4)[of "''QR-XX''" "JNum 4" "''L9''"]]
    by (simp add: ward_lookups)
  have b: "POST accepts_all noon (scanRequest ''u1'' (JNum 4) ''L2'' ''QR-XX'') ward_no_batch =
     (Response 400 (ErrorBody ''Invalid or inactive devolution pharmacy dispatch QR code''),
      ward_no_batch)"
    using resolution_order[where accepts = accepts_all and e = noon,
        OF scanRequest_sel(1,2)[of "''u1''" "JNum 4" "''L2''" "''QR-XX''"] ward_profile(2)
          scanRequest_sel(3)[of "''u1''" "JNum 4" "''L2''" "''QR-XX''"]
          scanRequest_sel(4)[of "''QR-XX''" "JNum 4" "''L2''"]]
    by (simp add: ward_lookups)
  have c: "POST accepts_all noon (scanRequest ''u1'' (JNum 4) ''L2'' ''QR-DEV'') ward_no_batch =
     (Response 400 (ErrorBody ''No active daily process found''), ward_no_batch)"
    using resolution_order[where accepts = accepts_all and e = noon,
        OF scanRequest_sel(1,2)[of "''u1''" "JNum 4" "''L2''" "''QR-DEV''"] ward_profile(2)
          scanRequest_sel(3)[of "''u1''" "JNum 4" "''L2''" "''QR-DEV''"]
          scanRequest_sel(4)[of "''QR-DEV''" "JNum 4" "''L2''"]]
    by (simp add: ward_lookups)
  show ?thesis by (intro conjI a b c)
qed

text \<open>
  C8, as stated (a temperature that is not numeric is rejected with a validation error
  and nothing is mutated), fails: on the ward, a scan whose temperature is the string
  "hot" passes the handler's checks. If the store accepts such scan records the call
  answers 200; if the store's temperature column is numeric the call answers 500. In
  both cases the three eligible processes have been rewritten.
\<close>

theorem context_validation_counterexample:
  "POST accepts_all noon (scanRequest ''u1'' (JStr ''hot'') ''L2'' ''QR-DEV'') ward =
     (success 3 ''Linea 2'',
      ward\<lparr>medicationProcesses := ward_dispatched,
           qRScanRecords := [ward_record (JStr ''hot'') ''pa'', ward_record (JStr ''hot'') ''pb'',
                             ward_record (JStr ''hot'') ''pc'']\<rparr>) \<and>
   fst (POST numeric_temperature noon (scanRequest ''u1'' (JStr ''hot'') ''L2'' ''QR-DEV'') ward) =
     Response 500 (ErrorBody ''Internal server error'') \<and>
   medicationProcesses
     (snd (POST numeric_temperature noon (scanRequest ''u1'' (JStr ''hot'') ''L2'' ''QR-DEV'') ward)) =
     ward_dispatched \<and>
   ward_dispatched \<noteq> medicationProcesses ward"
  by (simp add: ward_POST_accepts accepts_all_def numeric_temperature_def ward_record_def
      internalServerError_def)
    (simp add: ward_dispatched_def ward_def process_def)

text \<open>
  C8, amended: the handler checks that the temperature is present (neither undefined nor
  null), not what type it has, and that destinationLineId is present and references an
  existing Line. For a signed-in caller with a profile whose body is a JSON value other
  than null: a missing temperature is answered 400 ("QR ID is required" when the qrId is
  missing too, otherwise "Temperature is required"); a destinationLineId that is missing,
  or is a string for which the lookup of the line returns no row, is answered 400 with
  the error of the first check that fails (QR id, temperature, destination line,
  transaction type, "Invalid destination line"); the store is returned as it was in both
  cases. A temperature that is present passes the checks whatever its type: when the
  other fields are present, the line is found, the QR code is valid and a daily process
  is current, the request resolves with that temperature, and every eligible process is
  rewritten whatever the store then does with the scan records.
\<close>

theorem context_validation:
  assumes "\<not> sessionError req"
    and "sessionUser req = Some uid"
    and "profile_findUnique s uid = Some prof"
    and "requestBody req = Some b"
    and "destructure b = Some (qrId, temp, lineId, ttype)"
  shows
    "(temp = JUndefined \<or> temp = JNull \<longrightarrow>
        POST accepts e req s =
          (Response 400 (ErrorBody
             (if falsy qrId then ''QR ID is required'' else ''Temperature is required'')), s)) \<and>
     (falsy lineId \<or> (\<exists>lid. lineId = JStr lid \<and> line_findUnique s lid = NoRow) \<longrightarrow>
        POST accepts e req s =
          (Response 400 (ErrorBody
             (if falsy qrId then ''QR ID is required''
              else if temp = JUndefined \<or> temp = JNull then ''Temperature is required''
              else if falsy lineId then ''Destination line is required''
              else if falsy ttype then ''Transaction type is required''
              else ''Invalid destination line'')), s)) \<and>
     (\<forall>q lid sel c d.
        temp \<noteq> JUndefined \<and> temp \<noteq> JNull \<and>
        qrId = JStr q \<and> q \<noteq> [] \<and> lineId = JStr lid \<and> lid \<noteq> [] \<and> \<not> falsy ttype \<and>
        line_findUnique s lid = Row sel \<and> qRCode_findUnique s q = Row c \<and>
        qr_isActive c \<and> qr_type c = ''PHARMACY_DISPATCH_DEVOLUTION'' \<and>
        dailyProcess_findFirst e s = Some d \<and>
        distinct (map mp_id (medicationProcesses s)) \<longrightarrow>
        POST_resolve e req s =
          Inr \<lparr>user_id = uid, temperature = temp, destinationLineId = lid,
               transactionType = ttype, selectedLine = sel, qrCode = c,
               currentDailyProcess = d\<rparr> \<and>
        medicationProcesses (snd (POST accepts e req s)) =
          map (\<lambda>p. if eligible s (dp_id d) lid p then dispatched e p else p)
            (medicationProcesses s))"
proof (intro conjI impI allI)
  assume "temp = JUndefined \<or> temp = JNull"
  then have "POST_resolve e req s =
      Inl (if falsy qrId then qrIdRequired else temperatureRequired)"
    by (rule POST_resolve_no_temperature[OF assms])
  then show "POST accepts e req s =
      (Response 400 (ErrorBody
         (if falsy qrId then ''QR ID is required'' else ''Temperature is required'')), s)"
    by (simp add: POST_Inl qrIdRequired_def temperatureRequired_def)
next
  assume "falsy lineId \<or> (\<exists>lid. lineId = JStr lid \<and> line_findUnique s lid = NoRow)"
  then have "POST_resolve e req s =
     Inl (if falsy qrId then qrIdRequired
          else if temp = JUndefined \<or> temp = JNull then temperatureRequired
          else if falsy lineId then destinationLineRequired
          else if falsy ttype then transactionTypeRequired
          else invalidDestinationLine)"
    by (rule POST_resolve_no_line[OF assms])
  then show "POST accepts e req s =
          (Response 400 (ErrorBody
             (if falsy qrId then ''QR ID is required''
              else if temp = JUndefined \<or> temp = JNull then ''Temperature is required''
              else if falsy lineId then ''Destination line is required''
              else if falsy ttype then ''Transaction type is required''
              else ''Invalid destination line'')), s)"
    by (simp add: POST_Inl qrIdRequired_def temperatureRequired_def
        destinationLineRequired_def transactionTypeRequired_def invalidDestinationLine_def)
next
  fix q lid sel c d
  assume a: "temp \<noteq> JUndefined \<and> temp \<noteq> JNull \<and>
        qrId = JStr q \<and> q \<noteq> [] \<and> lineId = JStr lid \<and> lid \<noteq> [] \<and> \<not> falsy ttype \<and>
        line_findUnique s lid = Row sel \<and> qRCode_findUnique s q = Row c \<and>
        qr_isActive c \<and> qr_type c = ''PHARMACY_DISPATCH_DEVOLUTION'' \<and>
        dailyProcess_findFirst e s = Some d \<and>
        distinct (map mp_id (medicationProcesses s))"
  let ?r = "\<lparr>user_id = uid, temperature = temp, destinationLineId = lid,
               transactionType = ttype, selectedLine = sel, qrCode = c,
               currentDailyProcess = d\<rparr>"
  from a assms(5) have d5: "destructure b = Some (JStr q, temp, JStr lid, ttype)" by simp
  have res: "POST_resolve e req s = Inr ?r"
    using a by (intro POST_resolve_passes[OF assms(1-4) d5]) simp_all
  from a have pk: "distinct (map mp_id (medicationProcesses s))" by simp
  show "POST_resolve e req s = Inr ?r" by (rule res)
  show "medicationProcesses (snd (POST accepts e req s)) =
          map (\<lambda>p. if eligible s (dp_id d) lid p then dispatched e p else p)
            (medicationProcesses s)"
    using POST_frame_resolved[OF res pk, of accepts] by simp
qed

theorem context_validation_witness:
  "POST accepts_all noon (scanRequest ''u1'' JNull ''L2'' ''QR-DEV'') ward =
     (Response 400 (ErrorBody ''Temperature is required''), ward) \<and>
   POST accepts_all noon (scanRequest ''u1'' (JNum 4) [] ''QR-DEV'') ward =
     (Response 400 (ErrorBody ''Destination line is required''), ward) \<and>
   POST accepts_all noon (scanRequest ''u1'' (JNum 4) ''L9'' ''QR-DEV'') ward =
     (Response 400 (ErrorBody ''Invalid destination line''), ward) \<and>
   POST_resolve noon (scanRequest ''u1'' (JStr ''hot'') ''L2'' ''QR-DEV'') ward =
     Inr (ward_resolved (JStr ''hot'') ''L2'' ''Linea 2'') \<and>
   medicationProcesses
     (snd (POST numeric_temperature noon (scanRequest ''u1'' (JStr ''hot'') ''L2'' ''QR-DEV'') ward)) =
     ward_dispatched"
proof -
  have a: "POST accepts_all noon (scanRequest ''u1'' JNull ''L2'' ''QR-DEV'') ward =
     (Response 400 (ErrorBody ''Temperature is required''), ward)"
    using context_validation[where accepts = accepts_all and e = noon,
        OF scanRequest_sel(1,2)[of "''u1''" JNull "''L2''" "''QR-DEV''"] ward_profile(1)
          scanRequest_sel(3)[of "''u1''" JNull "''L2''" "''QR-DEV''"]
          scanRequest_sel(4)[of "''QR-DEV''" JNull "''L2''"]]
    by simp
  have b: "POST accepts_all noon (scanRequest ''u1'' (JNum 4) [] ''QR-DEV'') ward =
     (Response 400 (ErrorBody ''Destination line is required''), ward)"
    using context_validation[where accepts = accepts_all and e = noon,
        OF scanRequest_sel(1,2)[of "''u1''" "JNum 4" "[]" "''QR-DEV''"] ward_profile(1)
          scanRequest_sel(3)[of "''u1''" "JNum 4" "[]" "''QR-DEV''"]
          scanRequest_sel(4)[of "''QR-DEV''" "JNum 4" "[]"]]
    by simp
  have c: "POST accepts_all noon (scanRequest ''u1'' (JNum 4) ''L9'' ''QR-DEV'') ward =
     (Response 400 (ErrorBody ''Invalid destination line''), ward)"
    using context_validation[where accepts = accepts_all and e = noon,
        OF scanRequest_sel(1,2)[of "''u1''" "JNum 4" "''L9''" "''QR-DEV''"] ward_profile(1)
          scanRequest_sel(3)[of "''u1''" "JNum 4" "''L9''" "''QR-DEV''"]
          scanRequest_sel(4)[of "''QR-DEV''" "JNum 4" "''L9''"]]
    by (simp add: ward_lookups)
  note hot = context_validation[where accepts = numeric_temperature and e = noon,
        OF scanRequest_sel(1,2)[of "''u1''" "JStr ''hot''" "''L2''" "''QR-DEV''"] ward_profile(1)
          scanRequest_sel(3)[of "''u1''" "JStr ''hot''" "''L2''" "''QR-DEV''"]
          scanRequest_sel(4)[of "''QR-DEV''" "JStr ''hot''" "''L2''"],
        THEN conjunct2, THEN conjunct2, rule_format,
        of "''QR-DEV''" "''L2''" "\<lparr>line_id = ''L2'', line_displayName = ''Linea 2''\<rparr>"
          "\<lparr>qr_id = ''q1'', qr_qrId = ''QR-DEV'',
             qr_type = ''PHARMACY_DISPATCH_DEVOLUTION'', qr_isActive = True\<rparr>"
          "\<lparr>dp_id = ''d1'', dp_date = 0, dp_createdAt = 100\<rparr>"]
  have pre: "JStr ''hot'' \<noteq> JUndefined \<and> JStr ''hot'' \<noteq> JNull \<and>
        JStr ''QR-DEV'' = JStr ''QR-DEV'' \<and> ''QR-DEV'' \<noteq> [] \<and> JStr ''L2'' = JStr ''L2'' \<and>
        ''L2'' \<noteq> [] \<and> \<not> falsy (JStr ''DEVOLUCION'') \<and>
        line_findUnique ward ''L2'' = Row \<lparr>line_id = ''L2'', line_displayName = ''Linea 2''\<rparr> \<and>
        qRCode_findUnique ward ''QR-DEV'' =
          Row \<lparr>qr_id = ''q1'', qr_qrId = ''QR-DEV'',
               qr_type = ''PHARMACY_DISPATCH_DEVOLUTION'', qr_isActive = True\<rparr> \<and>
        qr_isActive \<lparr>qr_id = ''q1'', qr_qrId = ''QR-DEV'',
               qr_type = ''PHARMACY_DISPATCH_DEVOLUTION'', qr_isActive = True\<rparr> \<and>
        qr_type \<lparr>qr_id = ''q1'', qr_qrId = ''QR-DEV'',
               qr_type = ''PHARMACY_DISPATCH_DEVOLUTION'', qr_isActive = True\<rparr> =
          ''PHARMACY_DISPATCH_DEVOLUTION'' \<and>
        dailyProcess_findFirst noon ward =
          Some \<lparr>dp_id = ''d1'', dp_date = 0, dp_createdAt = 100\<rparr> \<and>
        distinct (map mp_id (medicationProcesses ward))"
    by (simp add: ward_lookups ward_pk)
  have d: "POST_resolve noon (scanRequest ''u1'' (JStr ''hot'') ''L2'' ''QR-DEV'') ward =
     Inr (ward_resolved (JStr ''hot'') ''L2'' ''Linea 2'')"
    using hot[OF pre, THEN conjunct1] by (simp add: ward_resolved_def)
  have e: "medicationProcesses
     (snd (POST numeric_temperature noon (scanRequest ''u1'' (JStr ''hot'') ''L2'' ''QR-DEV'') ward)) =
     ward_dispatched"
    using hot[OF pre, THEN conjunct2] by (simp only: dailyProcess.simps ward_eligible_L2)
  show ?thesis by (intro conjI a b c d e)
qed

text \<open>
  C2, as stated (no outcome in which a status is advanced and the scan record is not
  written), fails: on the ward, with a store whose temperature column is numeric and a
  scan whose temperature is the string "hot", the call answers 500 after the three
  processes went from IN_PROGRESS to DISPATCHED_FROM_PHARMACY and no scan record was
  written.
\<close>

theorem writes_without_transaction_counterexample:
  "POST numeric_temperature noon (scanRequest ''u1'' (JStr ''hot'') ''L2'' ''QR-DEV'') ward =
     (Response 500 (ErrorBody ''Internal server error''),
      ward\<lparr>medicationProcesses := ward_dispatched, qRScanRecords := []\<rparr>) \<and>
   mp_status (medicationProcesses ward ! 0) = IN_PROGRESS \<and>
   mp_status (ward_dispatched ! 0) = DISPATCHED_FROM_PHARMACY"
  by (simp add: ward_POST_accepts numeric_temperature_def ward_record_def
      internalServerError_def)
    (simp add: ward_dispatched_def ward_def process_def)

text \<open>
  C2, amended: the status updates and the scan records are separate writes, without a
  transaction: all status updates are made first, then the scan records are created. For
  a request that resolves with a non-empty eligible set, every eligible process is
  rewritten to DISPATCHED_FROM_PHARMACY whatever happens to the scan records; when the
  store accepts every scan record, the call succeeds and exactly one scan record per
  eligible process is appended; when the store rejects one, the call answers 500, the
  status updates stay, and only the accepted scan records are appended.
\<close>

theorem writes_without_transaction:
  assumes res: "POST_resolve e req s = Inr r"
    and pk: "distinct (map mp_id (medicationProcesses s))"
    and ne: "POST_query r s \<noteq> []"
    and post: "POST accepts e req s = (resp, s')"
  shows
    "medicationProcesses s' =
       map (\<lambda>q. if eligible s (dp_id (currentDailyProcess r)) (destinationLineId r) q
                then dispatched e q else q) (medicationProcesses s) \<and>
     qRScanRecords s' =
       qRScanRecords s @ filter accepts (map (scanData e r) (POST_query r s)) \<and>
     (list_all accepts (map (scanData e r) (POST_query r s)) \<longrightarrow>
        resp = success (length (POST_query r s)) (line_displayName (selectedLine r)) \<and>
        qRScanRecords s' = qRScanRecords s @ map (scanData e r) (POST_query r s)) \<and>
     (\<not> list_all accepts (map (scanData e r) (POST_query r s)) \<longrightarrow>
        resp = Response 500 (ErrorBody ''Internal server error''))"
proof -
  note eq = POST_Inr[OF res pk, of accepts]
  have f: "list_all accepts xs \<Longrightarrow> filter accepts xs = xs" for xs
    by (simp add: list_all_iff)
  from eq post ne show ?thesis
    by (auto simp: f internalServerError_def)
qed

theorem writes_without_transaction_witness:
  "POST_resolve noon (scanRequest ''u1'' (JStr ''hot'') ''L2'' ''QR-DEV'') ward =
     Inr (ward_resolved (JStr ''hot'') ''L2'' ''Linea 2'') \<and>
   distinct (map mp_id (medicationProcesses ward)) \<and>
   POST_query (ward_resolved (JStr ''hot'') ''L2'' ''Linea 2'') ward \<noteq> [] \<and>
   \<not> list_all numeric_temperature
       (map (scanData noon (ward_resolved (JStr ''hot'') ''L2'' ''Linea 2''))
          (POST_query (ward_resolved (JStr ''hot'') ''L2'' ''Linea 2'') ward)) \<and>
   fst (POST numeric_temperature noon (scanRequest ''u1'' (JStr ''hot'') ''L2'' ''QR-DEV'') ward) =
     Response 500 (ErrorBody ''Internal server error'') \<and>
   list_all accepts_all
       (map (scanData noon (ward_resolved (JNum 4) ''L2'' ''Linea 2''))
          (POST_query (ward_resolved (JNum 4) ''L2'' ''Linea 2'') ward)) \<and>
   fst (POST accepts_all noon (scanRequest ''u1'' (JNum 4) ''L2'' ''QR-DEV'') ward) =
     success 3 ''Linea 2''"
proof -
  have res: "POST_resolve noon (scanRequest ''u1'' t ''L2'' ''QR-DEV'') ward =
     Inr (ward_resolved t ''L2'' ''Linea 2'')" if "t \<noteq> JUndefined" "t \<noteq> JNull" for t
    using that by (simp add: ward_resolve_L2)
  have ne: "POST_query (ward_resolved t ''L2'' ''Linea 2'') ward \<noteq> []" for t
    by (simp add: ward_query_L2)
  have rej: "\<not> list_all numeric_temperature
       (map (scanData noon (ward_resolved (JStr ''hot'') ''L2'' ''Linea 2''))
          (POST_query (ward_resolved (JStr ''hot'') ''L2'' ''Linea 2'') ward))"
    by (simp add: ward_records_L2 numeric_temperature_def ward_record_def)
  have acc: "list_all accepts_all
       (map (scanData noon (ward_resolved (JNum 4) ''L2'' ''Linea 2''))
          (POST_query (ward_resolved (JNum 4) ''L2'' ''Linea 2'') ward))"
    by (simp add: ward_records_L2 accepts_all_def)
  have len: "length (POST_query (ward_resolved t ''L2'' ''Linea 2'') ward) = 3" for t
    by (simp add: ward_query_L2)
  have a: "fst (POST numeric_temperature noon (scanRequest ''u1'' (JStr ''hot'') ''L2'' ''QR-DEV'') ward) =
     Response 500 (ErrorBody ''Internal server error'')"
    using writes_without_transaction[where accepts = numeric_temperature,
        OF res[of "JStr ''hot''"] ward_pk ne surjective_pairing] rej
    by simp
  have b: "fst (POST accepts_all noon (scanRequest ''u1'' (JNum 4) ''L2'' ''QR-DEV'') ward) =
     success 3 ''Linea 2''"
    using writes_without_transaction[where accepts = accepts_all,
        OF res[of "JNum 4"] ward_pk ne surjective_pairing] acc
    by (simp only: len ward_resolved_sel) simp
  show ?thesis by (intro conjI res ward_pk ne rej a acc b) simp_all
qed

text \<open>
  C1, as stated (the update is conditioned on the status still being IN_PROGRESS, so of
  two dispatch calls on the same eligible record exactly one transitions it and the
  other skips it), fails: on the ward, when two handlers for the same scan both finish
  their reads before either writes, both answer 200 for three patients and every one of
  the three patients gets two scan records.
\<close>

theorem overlapping_dispatch_counterexample:
  "fst (POST_overlapped accepts_all noon (scanRequest ''u1'' (JNum 4) ''L2'' ''QR-DEV'')
       noon (scanRequest ''u1'' (JNum 4) ''L2'' ''QR-DEV'') ward) = success 3 ''Linea 2'' \<and>
   fst (snd (POST_overlapped accepts_all noon (scanRequest ''u1'' (JNum 4) ''L2'' ''QR-DEV'')
       noon (scanRequest ''u1'' (JNum 4) ''L2'' ''QR-DEV'') ward)) = success 3 ''Linea 2'' \<and>
   map sr_patientId (qRScanRecords (snd (snd
     (POST_overlapped accepts_all noon (scanRequest ''u1'' (JNum 4) ''L2'' ''QR-DEV'')
       noon (scanRequest ''u1'' (JNum 4) ''L2'' ''QR-DEV'') ward)))) =
     [''pa'', ''pb'', ''pc'', ''pa'', ''pb'', ''pc'']"
  by (simp add: ward_overlapped ward_record_def)

text \<open>
  C1, amended: the update is keyed by the id of the process alone; the status
  IN_PROGRESS is tested only by the query that precedes the writes. When two dispatch
  calls resolve, both find a non-empty eligible set on the same store and both finish
  reading before either writes, each call updates every process of its eligible set,
  each answers 200 with the full size of its eligible set, and the scan records of both
  calls are appended (a process eligible for both is rewritten by both and gets a scan
  record from each).
\<close>

theorem overlapping_dispatch:
  assumes "POST_resolve e1 req1 s = Inr r1"
    and "POST_resolve e2 req2 s = Inr r2"
    and "distinct (map mp_id (medicationProcesses s))"
    and "POST_query r1 s \<noteq> []"
    and "POST_query r2 s \<noteq> []"
    and "list_all accepts (map (scanData e1 r1) (POST_query r1 s))"
    and "list_all accepts (map (scanData e2 r2) (POST_query r2 s))"
  shows "POST_overlapped accepts e1 req1 e2 req2 s =
     (success (length (POST_query r1 s)) (line_displayName (selectedLine r1)),
      success (length (POST_query r2 s)) (line_displayName (selectedLine r2)),
      s\<lparr>medicationProcesses :=
           map (\<lambda>q. if eligible s (dp_id (currentDailyProcess r2)) (destinationLineId r2) q
                    then dispatched e2 q
                    else if eligible s (dp_id (currentDailyProcess r1)) (destinationLineId r1) q
                    then dispatched e1 q else q) (medicationProcesses s),
        qRScanRecords :=
           qRScanRecords s @ map (scanData e1 r1) (POST_query r1 s) @
           map (scanData e2 r2) (POST_query r2 s)\<rparr>)"
  using assms by (rule POST_overlapped_eq)

theorem overlapping_dispatch_witness:
  "POST_resolve noon (scanRequest ''u1'' (JNum 4) ''L2'' ''QR-DEV'') ward =
     Inr (ward_resolved (JNum 4) ''L2'' ''Linea 2'') \<and>
   distinct (map mp_id (medicationProcesses ward)) \<and>
   POST_query (ward_resolved (JNum 4) ''L2'' ''Linea 2'') ward \<noteq> [] \<and>
   list_all accepts_all
       (map (scanData noon (ward_resolved (JNum 4) ''L2'' ''Linea 2''))
          (POST_query (ward_resolved (JNum 4) ''L2'' ''Linea 2'') ward)) \<and>
   POST_overlapped accepts_all noon (scanRequest ''u1'' (JNum 4) ''L2'' ''QR-DEV'')
       noon (scanRequest ''u1'' (JNum 4) ''L2'' ''QR-DEV'') ward =
     (success 3 ''Linea 2'', success 3 ''Linea 2'',
      ward\<lparr>medicationProcesses := ward_dispatched,
           qRScanRecords := [ward_record (JNum 4) ''pa'', ward_record (JNum 4) ''pb'',
                             ward_record (JNum 4) ''pc'', ward_record (JNum 4) ''pa'',
                             ward_record (JNum 4) ''pb'', ward_record (JNum 4) ''pc'']\<rparr>)"
proof -
  have res: "POST_resolve noon (scanRequest ''u1'' (JNum 4) ''L2'' ''QR-DEV'') ward =
     Inr (ward_resolved (JNum 4) ''L2'' ''Linea 2'')"
    by (simp add: ward_resolve_L2)
  have ne: "POST_query (ward_resolved (JNum 4) ''L2'' ''Linea 2'') ward \<noteq> []"
    by (simp add: ward_query_L2)
  have acc: "list_all accepts_all
       (map (scanData noon (ward_resolved (JNum 4) ''L2'' ''Linea 2''))
          (POST_query (ward_resolved (JNum 4) ''L2'' ''Linea 2'') ward))"
    by (simp add: ward_records_L2 accepts_all_def)
  have len: "length (POST_query (ward_resolved (JNum 4) ''L2'' ''Linea 2'') ward) = 3"
    by (simp add: ward_query_L2)
  have old: "qRScanRecords ward = []" by (simp add: ward_def)
  have tbl: "map (\<lambda>q. if eligible ward ''d1'' ''L2'' q then dispatched noon q
                     else if eligible ward ''d1'' ''L2'' q then dispatched noon q else q)
               (medicationProcesses ward) = ward_dispatched"
    using ward_eligible_L2 by (simp cong: if_cong)
  have both: "POST_overlapped accepts_all noon (scanRequest ''u1'' (JNum 4) ''L2'' ''QR-DEV'')
       noon (scanRequest ''u1'' (JNum 4) ''L2'' ''QR-DEV'') ward =
     (success 3 ''Linea 2'', success 3 ''Linea 2'',
      ward\<lparr>medicationProcesses := ward_dispatched,
           qRScanRecords := [ward_record (JNum 4) ''pa'', ward_record (JNum 4) ''pb'',
                             ward_record (JNum 4) ''pc'', ward_record (JNum 4) ''pa'',
                             ward_record (JNum 4) ''pb'', ward_record (JNum 4) ''pc'']\<rparr>)"
    unfolding overlapping_dispatch[OF res res ward_pk ne ne acc acc] ward_records_L2 len
    by (simp only: ward_resolved_sel tbl old append_Nil append_Cons)
  show ?thesis by (intro conjI res ward_pk ne acc both)
qed

text \<open>
  C10: the upper bound of the daily-process query is 23:59:59.999 of the current day,
  excluded. A daily process dated at that last millisecond lies within the current
  calendar day (from local midnight up to the next midnight, excluded) and yet is never
  the one the handler selects, however recently it was created. On the ward with two
  daily processes of the day, the later-created one dated 23:59:59.999 is passed over
  and the handler resolves the older one.
\<close>

theorem last_millisecond_excluded:
  assumes "dp_date d = setHours e 0 0 0 0 + 86399999"
  shows "setHours e 0 0 0 0 \<le> dp_date d \<and> dp_date d < setHours e 0 0 0 0 + 86400000 \<and>
         \<not> date_in_query e d \<and> dailyProcess_findFirst e s \<noteq> Some d"
proof -
  have out: "\<not> date_in_query e d"
    using assms by (simp add: date_in_query_def setHours_end)
  have "dailyProcess_findFirst e s \<noteq> Some d"
  proof
    assume "dailyProcess_findFirst e s = Some d"
    then have "d \<in> set (filter (date_in_query e) (dailyProcesses s))"
      unfolding dailyProcess_findFirst_def by (rule first_createdAt_desc_mem)
    with out show False by simp
  qed
  with out assms show ?thesis by simp
qed

theorem last_millisecond_excluded_witness:
  "dp_date \<lparr>dp_id = ''d2'', dp_date = 86399999, dp_createdAt = 200\<rparr> =
     setHours noon 0 0 0 0 + 86399999 \<and>
   dailyProcesses ward_two_batches =
     [\<lparr>dp_id = ''d1'', dp_date = 0, dp_createdAt = 100\<rparr>,
      \<lparr>dp_id = ''d2'', dp_date = 86399999, dp_createdAt = 200\<rparr>] \<and>
   setHours noon 0 0 0 0 = 0 \<and>
   dailyProcess_findFirst noon ward_two_batches \<noteq>
     Some \<lparr>dp_id = ''d2'', dp_date = 86399999, dp_createdAt = 200\<rparr> \<and>
   dailyProcess_findFirst noon ward_two_batches =
     Some \<lparr>dp_id = ''d1'', dp_date = 0, dp_createdAt = 100\<rparr> \<and>
   POST_resolve noon (scanRequest ''u1'' (JNum 4) ''L2'' ''QR-DEV'') ward_two_batches =
     Inr (ward_resolved (JNum 4) ''L2'' ''Linea 2'')"
proof -
  have s0: "setHours noon 0 0 0 0 = 0" by (simp add: setHours_def noon_def)
  have d: "dp_date \<lparr>dp_id = ''d2'', dp_date = 86399999, dp_createdAt = 200\<rparr> =
     setHours noon 0 0 0 0 + 86399999" by (simp add: s0)
  have ds: "dailyProcesses ward_two_batches =
     [\<lparr>dp_id = ''d1'', dp_date = 0, dp_createdAt = 100\<rparr>,
      \<lparr>dp_id = ''d2'', dp_date = 86399999, dp_createdAt = 200\<rparr>]"
    by (simp add: ward_two_batches_def)
  have f: "dailyProcess_findFirst noon ward_two_batches =
     Some \<lparr>dp_id = ''d1'', dp_date = 0, dp_createdAt = 100\<rparr>"
    by (simp add: dailyProcess_findFirst_def ds date_in_query_def setHours_end s0)
  have r: "POST_resolve noon (scanRequest ''u1'' (JNum 4) ''L2'' ''QR-DEV'') ward_two_batches =
     Inr (ward_resolved (JNum 4) ''L2'' ''Linea 2'')"
  proof -
    have p: "profile_findUnique ward_two_batches ''u1'' =
        Some \<lparr>profile_id = ''pr1'', profile_userId = ''u1''\<rparr>"
      by (simp add: ward_two_batches_def ward_def profile_findUnique_def)
    have l: "line_findUnique ward_two_batches ''L2'' =
        Row \<lparr>line_id = ''L2'', line_displayName = ''Linea 2''\<rparr>"
      by (simp add: ward_two_batches_def ward_def line_findUnique_def lookup_text_def)
    have q: "qRCode_findUnique ward_two_batches ''QR-DEV'' =
        Row \<lparr>qr_id = ''q1'', qr_qrId = ''QR-DEV'',
              qr_type = ''PHARMACY_DISPATCH_DEVOLUTION'', qr_isActive = True\<rparr>"
      by (simp add: ward_two_batches_def ward_def qRCode_findUnique_def lookup_text_def)
    show ?thesis
      by (simp add: POST_resolve_def p l q f scanRequest_def ward_resolved_def)
  qed
  from last_millisecond_excluded[OF d, of ward_two_batches]
  have n: "dailyProcess_findFirst noon ward_two_batches \<noteq>
     Some \<lparr>dp_id = ''d2'', dp_date = 86399999, dp_createdAt = 200\<rparr>"
    by simp
  show ?thesis by (intro conjI d ds s0 n f r)
qed

end
